theory Spec2Isabelle
  imports Main "HOL-Library.AList"
begin

section \<open>Usage accounting (src/utils.ts)\<close>

text \<open>
  \<^verbatim>\<open>CompletionUsage\<close> as this code reads it: three token counts. JavaScript numbers
  that hold token counts are integers far below \<open>2^53\<close>, where \<open>+\<close> is exact,
  so they are modelled as \<open>int\<close>.
\<close>

record CompletionUsage =
  prompt_tokens :: int
  completion_tokens :: int
  total_tokens :: int

text \<open>
  \<^verbatim>\<open>usage?.prompt_tokens ?? 0\<close>: the field of a present operand, \<open>0\<close> for a
  missing one (\<open>None\<close> is \<^verbatim>\<open>undefined\<close>).
\<close>

definition field_or_zero :: "(CompletionUsage \<Rightarrow> int) \<Rightarrow> CompletionUsage option \<Rightarrow> int" where
  "field_or_zero f usage = (case usage of None \<Rightarrow> 0 | Some u \<Rightarrow> f u)"

definition getTokensUsage :: "CompletionUsage option \<Rightarrow> CompletionUsage option \<Rightarrow> CompletionUsage" where
  "getTokensUsage usage1 usage2 =
     \<lparr> prompt_tokens = field_or_zero prompt_tokens usage1 + field_or_zero prompt_tokens usage2,
       completion_tokens = field_or_zero completion_tokens usage1 + field_or_zero completion_tokens usage2,
       total_tokens = field_or_zero total_tokens usage1 + field_or_zero total_tokens usage2 \<rparr>"

section \<open>JavaScript values, thrown values and chat messages\<close>

text \<open>
  JSON data. A JavaScript string that holds JSON text is kept symbolic: the string
  \<^verbatim>\<open>JSON.stringify(v)\<close> is represented by \<open>v\<close> itself, and \<^verbatim>\<open>JSON.parse\<close> gives \<open>v\<close>
  back. Numbers are the integers.
\<close>

datatype json = JNull | JBool bool | JNum int | JStr string | JArr "json list" | JObj "(string \<times> json) list"

text \<open>
  What a \<^verbatim>\<open>throw\<close> carries: an instance of \<^verbatim>\<open>Error\<close> or of one of its subclasses
  (src/errors.ts, and the two the runtime and the store client raise) with its message,
  or a value that is not an \<^verbatim>\<open>Error\<close> at all.
\<close>

datatype error_class =
  Error | ValidationError | ToolNotFoundError | DirectoryAccessError | FileReadError
  | FileImportError | InvalidToolError | ToolConfigurationError | TypeError | ClientClosedError

datatype thrown = Err error_class string | Non_error

text \<open>\<^verbatim>\<open>error instanceof Error ? error.message : 'Unknown error'\<close>\<close>

fun errorMessage :: "thrown \<Rightarrow> string" where
  "errorMessage (Err c m) = m"
| "errorMessage Non_error = ''Unknown error''"

datatype role = System | User | Assistant | Tool

text \<open>
  The content of a message: \<^verbatim>\<open>null\<close>, a plain string, or the string
  \<^verbatim>\<open>JSON.stringify(v)\<close>. The raw argument string of a tool call is the JSON text of a
  value, or a string that \<^verbatim>\<open>JSON.parse\<close> rejects.
\<close>

datatype content = Null_content | Plain string | Stringified json

datatype raw_arguments = Well_formed json | Malformed string

text \<open>
  A tool call \<^verbatim>\<open>{id, function: {name, arguments}}\<close>, and a message
  \<^verbatim>\<open>{role, content, tool_calls?, tool_call_id?}\<close>.
\<close>

record tool_call =
  call_id :: string
  call_name :: string
  call_arguments :: raw_arguments

record ChatCompletionMessage =
  role :: role
  content :: content
  tool_calls :: "tool_call list option"
  tool_call_id :: "string option"

section \<open>The ordered list store (Redis, through the node-redis client)\<close>

text \<open>
  The store maps a key to a list whose head is the entry pushed last. An entry is the
  JSON text of a message, represented by the message. The client rejects a command once
  its connection is gone: \<open>commands_left = Some n\<close> is a connection that serves \<open>n\<close> more
  commands, \<open>None\<close> one that stays up.
\<close>

record redis_client =
  commands_left :: "nat option"
  lists :: "string \<Rightarrow> ChatCompletionMessage list option"

definition sendCommand :: "redis_client \<Rightarrow> thrown + redis_client" where
  "sendCommand c =
     (case commands_left c of
        None \<Rightarrow> Inr c
      | Some 0 \<Rightarrow> Inl (Err ClientClosedError ''The client is closed'')
      | Some (Suc n) \<Rightarrow> Inr (c\<lparr>commands_left := Some n\<rparr>))"

definition stored_list :: "redis_client \<Rightarrow> string \<Rightarrow> ChatCompletionMessage list" where
  "stored_list c key = (case lists c key of None \<Rightarrow> [] | Some l \<Rightarrow> l)"

text \<open>LPUSH: push at the head, creating the list; the reply is the new length.\<close>

definition lPush :: "redis_client \<Rightarrow> string \<Rightarrow> ChatCompletionMessage \<Rightarrow> (thrown + nat) \<times> redis_client" where
  "lPush c key element =
     (case sendCommand c of
        Inl e \<Rightarrow> (Inl e, c)
      | Inr c' \<Rightarrow>
          (let l = element # stored_list c' key
           in (Inr (length l), c'\<lparr>lists := (lists c')(key \<mapsto> l)\<rparr>)))"

text \<open>
  LRANGE: both ends inclusive, a negative index counts from the tail, indices out of
  range are clipped.
\<close>

definition lrange_of :: "'a list \<Rightarrow> int \<Rightarrow> int \<Rightarrow> 'a list" where
  "lrange_of l start stop =
     (let llen = int (length l);
          start1 = (if start < 0 then llen + start else start);
          stop1 = (if stop < 0 then llen + stop else stop);
          start2 = (if start1 < 0 then 0 else start1)
      in if start2 > stop1 \<or> start2 \<ge> llen then []
         else (let stop2 = (if stop1 \<ge> llen then llen - 1 else stop1)
               in take (nat (stop2 - start2 + 1)) (drop (nat start2) l)))"

definition lRange :: "redis_client \<Rightarrow> string \<Rightarrow> int \<Rightarrow> int \<Rightarrow> (thrown + ChatCompletionMessage list) \<times> redis_client" where
  "lRange c key start stop =
     (case sendCommand c of
        Inl e \<Rightarrow> (Inl e, c)
      | Inr c' \<Rightarrow> (Inr (lrange_of (stored_list c' key) start stop), c'))"

text \<open>DEL: the reply is the number of keys that were removed.\<close>

definition del :: "redis_client \<Rightarrow> string \<Rightarrow> (thrown + nat) \<times> redis_client" where
  "del c key =
     (case sendCommand c of
        Inl e \<Rightarrow> (Inl e, c)
      | Inr c' \<Rightarrow>
          (Inr (if lists c' key = None then 0 else 1), c'\<lparr>lists := (lists c')(key := None)\<rparr>))"

section \<open>The history store (class AgentStorage)\<close>

record HistoryOptions =
  appended_messages :: "int option"
  remove_tool_messages :: "bool option"

record AgentStorage =
  redisClient :: "redis_client option"

text \<open>The log of a user as the store holds it, most recent entry first.\<close>

definition user_log :: "AgentStorage \<Rightarrow> string \<Rightarrow> ChatCompletionMessage list" where
  "user_log st key = (case redisClient st of None \<Rightarrow> [] | Some c \<Rightarrow> stored_list c key)"

text \<open>
  The filter of \<^verbatim>\<open>remove_tool_messages\<close>: user messages, and assistant messages with no
  \<^verbatim>\<open>tool_calls\<close> field.
\<close>

definition clean_message :: "ChatCompletionMessage \<Rightarrow> bool" where
  "clean_message m \<longleftrightarrow> role m = User \<or> (role m = Assistant \<and> tool_calls m = None)"

text \<open>
  \<^verbatim>\<open>getStoredMessages(userId, options = {})\<close>. The options are \<open>None\<close> when the caller
  passes none.
\<close>

definition getStoredMessages ::
  "AgentStorage \<Rightarrow> string \<Rightarrow> HistoryOptions option \<Rightarrow> (thrown + ChatCompletionMessage list) \<times> AgentStorage" where
  "getStoredMessages st userId options =
     (case redisClient st of
        None \<Rightarrow> (Inl (Err Error ''Redis client not initialized.''), st)
      | Some c \<Rightarrow>
          (let limit = (case options of None \<Rightarrow> None | Some opts \<Rightarrow> appended_messages opts);
               remove = (case options of None \<Rightarrow> None | Some opts \<Rightarrow> remove_tool_messages opts)
           in if limit = Some 0 then (Inr [], st)
              else
                (case (if limit \<noteq> None
                       then lRange c (''user:'' @ userId) 0 (the limit - 1)
                       else lRange c (''user:'' @ userId) 0 (- 1)) of
                   (Inl e, c') \<Rightarrow> (Inl e, st\<lparr>redisClient := Some c'\<rparr>)
                 | (Inr messages, c') \<Rightarrow>
                     (if messages = [] then (Inr [], st\<lparr>redisClient := Some c'\<rparr>)
                      else
                        (let parsedMessages = rev messages
                         in (Inr (if remove = Some True then filter clean_message parsedMessages
                                  else parsedMessages),
                             st\<lparr>redisClient := Some c'\<rparr>))))))"

text \<open>The loop of \<^verbatim>\<open>saveChatHistory\<close>: one LPUSH per message, stopping at the first rejection.\<close>

fun lPush_each :: "redis_client \<Rightarrow> string \<Rightarrow> ChatCompletionMessage list \<Rightarrow> (thrown + unit) \<times> redis_client" where
  "lPush_each c key [] = (Inr (), c)"
| "lPush_each c key (m # ms) =
     (case lPush c key m of
        (Inl e, c') \<Rightarrow> (Inl e, c')
      | (Inr n, c') \<Rightarrow> lPush_each c' key ms)"

text \<open>\<^verbatim>\<open>${userId}\<close> in a template string: an absent id prints as \<^verbatim>\<open>undefined\<close>.\<close>

definition userId_text :: "string option \<Rightarrow> string" where
  "userId_text userId = (case userId of None \<Rightarrow> ''undefined'' | Some u \<Rightarrow> u)"

text \<open>
  \<^verbatim>\<open>saveChatHistory(userId, messages)\<close>. \<^verbatim>\<open>messages.shift()\<close> also removes the leading
  system message from the caller's array; the orchestrator only passes arrays that start
  with a user message.
\<close>

definition saveChatHistory ::
  "AgentStorage \<Rightarrow> string option \<Rightarrow> ChatCompletionMessage list \<Rightarrow> (thrown + ChatCompletionMessage list) \<times> AgentStorage" where
  "saveChatHistory st userId messages =
     (case redisClient st of
        None \<Rightarrow> (Inl (Err Error ''Redis client not initialized.''), st)
      | Some c \<Rightarrow>
          (let ident = (case userId of None \<Rightarrow> ''default'' | Some u \<Rightarrow> if u = [] then ''default'' else u);
               messages1 = (case messages of [] \<Rightarrow> [] | m # ms \<Rightarrow> if role m = System then ms else messages)
           in case lPush_each c (''user:'' @ ident) messages1 of
                (Inl e, c') \<Rightarrow>
                  (Inl (Err Error (''Error saving chat history of user: '' @ userId_text userId @ '': ''
                                   @ errorMessage e)),
                   st\<lparr>redisClient := Some c'\<rparr>)
              | (Inr u, c') \<Rightarrow>
                  (case getStoredMessages (st\<lparr>redisClient := Some c'\<rparr>) ident None of
                     (Inl e, st') \<Rightarrow>
                       (Inl (Err Error (''Error saving chat history of user: '' @ userId_text userId @ '': ''
                                        @ errorMessage e)),
                        st')
                   | (Inr stored, st') \<Rightarrow> (Inr stored, st'))))"

definition deleteHistory :: "AgentStorage \<Rightarrow> string \<Rightarrow> (thrown + nat) \<times> AgentStorage" where
  "deleteHistory st userId =
     (case redisClient st of
        None \<Rightarrow> (Inl (Err Error ''Redis client not initialized.''), st)
      | Some c \<Rightarrow>
          (case del c (''user:'' @ userId) of
             (Inl e, c') \<Rightarrow>
               (Inl (Err Error (''Error deleting chat history of user: '' @ userId @ '': '' @ errorMessage e)),
                st\<lparr>redisClient := Some c'\<rparr>)
           | (Inr n, c') \<Rightarrow> (Inr n, st\<lparr>redisClient := Some c'\<rparr>)))"

section \<open>Tools and the tool registry (src/modules/tools-registry.ts)\<close>

text \<open>
  What a call of a tool implementation does: it returns a value (the model keeps its
  JSON form), returns \<^verbatim>\<open>undefined\<close>, or throws; a rejected promise is a throw.
\<close>

datatype outcome = Returns json | Returns_undefined | Throws thrown

type_synonym ToolFunction = "json \<Rightarrow> outcome"

text \<open>
  \<^verbatim>\<open>ToolFunctions\<close> is a plain object created by \<^verbatim>\<open>{}\<close>: its own properties are the
  loaded implementations, keyed by export name, in the order of their insertion. An
  assignment \<^verbatim>\<open>functions[key] = f\<close> is \<open>AList.update key f\<close>, and \<^verbatim>\<open>Object.keys\<close> gives
  each key once.
\<close>

type_synonym ToolFunctions = "(string \<times> ToolFunction) list"

definition Object_keys :: "ToolFunctions \<Rightarrow> string list" where
  "Object_keys functions = remdups (map fst functions)"

text \<open>
  A tool definition that passed validation, read as \<^verbatim>\<open>ChatCompletionTool\<close>: the fields of
  its \<^verbatim>\<open>function\<close> object (its \<^verbatim>\<open>type\<close> is \<^verbatim>\<open>'function'\<close>).
\<close>

record ChatCompletionTool =
  function_name :: string
  function_description :: "string option"
  function_parameters :: "json option"
  function_strict :: "json option"

record AgentTools =
  toolDefinitions :: "ChatCompletionTool list"
  toolFunctions :: ToolFunctions

text \<open>
  \<^verbatim>\<open>obj[key]\<close> reads an own property, and failing that the property the object inherits
  from \<^verbatim>\<open>Object.prototype\<close>. These are the keys of \<^verbatim>\<open>Object.prototype\<close>; the value found
  under each of them is truthy.
\<close>

definition Object_prototype_keys :: "string list" where
  "Object_prototype_keys =
     [''constructor'', ''__defineGetter__'', ''__defineSetter__'', ''hasOwnProperty'',
      ''__lookupGetter__'', ''__lookupSetter__'', ''isPrototypeOf'', ''propertyIsEnumerable'',
      ''toString'', ''valueOf'', ''__proto__'', ''toLocaleString'']"

datatype property = Own ToolFunction | Inherited string

definition get_property :: "ToolFunctions \<Rightarrow> string \<Rightarrow> property option" where
  "get_property functions key =
     (case map_of functions key of
        Some f \<Rightarrow> Some (Own f)
      | None \<Rightarrow> if key \<in> set Object_prototype_keys then Some (Inherited key) else None)"

text \<open>
  Calling a member of \<^verbatim>\<open>Object.prototype\<close> as a plain function, so with the receiver
  \<^verbatim>\<open>undefined\<close>: \<^verbatim>\<open>toString\<close> answers \<^verbatim>\<open>"[object Undefined]"\<close>, \<^verbatim>\<open>constructor\<close> is
  \<^verbatim>\<open>Object\<close> and answers its argument as an object (\<^verbatim>\<open>{}\<close> for \<^verbatim>\<open>null\<close>),
  \<^verbatim>\<open>isPrototypeOf\<close> answers \<^verbatim>\<open>false\<close> for an argument that is no object, the value of
  \<^verbatim>\<open>__proto__\<close> is no function, and the others convert the receiver to an object first,
  which throws a \<^verbatim>\<open>TypeError\<close> (the message texts are those of V8).
\<close>

definition Object_prototype_call :: "string \<Rightarrow> json \<Rightarrow> outcome" where
  "Object_prototype_call key arg =
     (if key = ''toString'' then Returns (JStr ''[object Undefined]'')
      else if key = ''constructor'' then Returns (if arg = JNull then JObj [] else arg)
      else if key = ''isPrototypeOf'' then
        (case arg of
           JObj members \<Rightarrow> Throws (Err TypeError ''Cannot convert undefined or null to object'')
         | JArr elements \<Rightarrow> Throws (Err TypeError ''Cannot convert undefined or null to object'')
         | _ \<Rightarrow> Returns (JBool False))
      else if key = ''__proto__'' then Throws (Err TypeError ''currentFunction is not a function'')
      else if key = ''toLocaleString'' then
        Throws (Err TypeError ''Object.prototype.toLocaleString called on null or undefined'')
      else Throws (Err TypeError ''Cannot convert undefined or null to object''))"

fun call_property :: "property \<Rightarrow> json \<Rightarrow> outcome" where
  "call_property (Own f) arg = f arg"
| "call_property (Inherited key) arg = Object_prototype_call key arg"

subsection \<open>Validation of a tool definition\<close>

text \<open>
  The value under a key of a JSON object; \<open>None\<close> is \<^verbatim>\<open>undefined\<close>, which is also what a
  value that is no object answers.
\<close>

fun get_field :: "json \<Rightarrow> string \<Rightarrow> json option" where
  "get_field (JObj members) key = map_of members key"
| "get_field v key = None"

text \<open>\<^verbatim>\<open>!v\<close> for a value that may be \<^verbatim>\<open>undefined\<close>.\<close>

fun falsy :: "json option \<Rightarrow> bool" where
  "falsy None = True"
| "falsy (Some JNull) = True"
| "falsy (Some (JBool b)) = (\<not> b)"
| "falsy (Some (JNum n)) = (n = 0)"
| "falsy (Some (JStr s)) = (s = [])"
| "falsy (Some v) = False"

text \<open>\<^verbatim>\<open>typeof v === 'object'\<close>, which holds of \<^verbatim>\<open>null\<close> and of arrays too.\<close>

fun typeof_object :: "json option \<Rightarrow> bool" where
  "typeof_object (Some JNull) = True"
| "typeof_object (Some (JArr elements)) = True"
| "typeof_object (Some (JObj members)) = True"
| "typeof_object v = False"

text \<open>A character of the class \<^verbatim>\<open>[a-zA-Z0-9_-]\<close>.\<close>

definition name_char :: "char \<Rightarrow> bool" where
  "name_char ch \<longleftrightarrow>
     ch \<in> set ''abcdefghijklmnopqrstuvwxyzABCDEFGHIJKLMNOPQRSTUVWXYZ0123456789_-''"

definition validateFunctionName :: "json option \<Rightarrow> thrown + unit" where
  "validateFunctionName name =
     (case name of
        Some (JStr s) \<Rightarrow>
          (if s = [] then Inl (Err ValidationError ''Function name must be a non-empty string'')
           else if length s > 64 then Inl (Err ValidationError ''Function name must not exceed 64 characters'')
           else if \<not> list_all name_char s then
             Inl (Err ValidationError
               ''Function name must contain only alphanumeric characters, underscores, and hyphens'')
           else Inr ())
      | _ \<Rightarrow> Inl (Err ValidationError ''Function name must be a non-empty string''))"

definition validateFunctionParameters :: "json option \<Rightarrow> thrown + unit" where
  "validateFunctionParameters params =
     (if falsy params \<or> \<not> typeof_object params
      then Inl (Err ValidationError ''Function parameters must be a non-null object'')
      else Inr ())"

fun typeof_string :: "json option \<Rightarrow> bool" where
  "typeof_string (Some (JStr s)) = True"
| "typeof_string v = False"

fun typeof_boolean :: "json option \<Rightarrow> bool" where
  "typeof_boolean (Some (JBool b)) = True"
| "typeof_boolean v = False"

definition validateFunctionDefinition :: "json option \<Rightarrow> thrown + unit" where
  "validateFunctionDefinition func =
     (if falsy func \<or> \<not> typeof_object func
      then Inl (Err ValidationError ''Function definition must be a non-null object'')
      else
        (let description = get_field (the func) ''description'';
             parameters = get_field (the func) ''parameters'';
             strict = get_field (the func) ''strict''
         in case validateFunctionName (get_field (the func) ''name'') of
              Inl e \<Rightarrow> Inl e
            | Inr u \<Rightarrow>
                (if description \<noteq> None \<and> \<not> typeof_string description
                 then Inl (Err ValidationError ''Function description must be a string when provided'')
                 else
                   (case (if parameters \<noteq> None then validateFunctionParameters parameters else Inr ()) of
                      Inl e \<Rightarrow> Inl e
                    | Inr u \<Rightarrow>
                        (if strict \<noteq> None \<and> strict \<noteq> Some JNull \<and> \<not> typeof_boolean strict
                         then Inl (Err ValidationError ''Function strict flag must be a boolean when provided'')
                         else Inr ())))))"

definition validateChatCompletionTool :: "json option \<Rightarrow> thrown + unit" where
  "validateChatCompletionTool tool =
     (if falsy tool \<or> \<not> typeof_object tool
      then Inl (Err ValidationError ''Chat completion tool must be a non-null object'')
      else if get_field (the tool) ''type'' \<noteq> Some (JStr ''function'')
      then Inl (Err ValidationError (''Chat completion tool type must be '' @ [CHR 0x22] @ ''function'' @ [CHR 0x22]))
      else validateFunctionDefinition (get_field (the tool) ''function''))"

text \<open>\<^verbatim>\<open>fn as ChatCompletionTool\<close>: the typed reading of a validated definition.\<close>

definition as_ChatCompletionTool :: "json \<Rightarrow> ChatCompletionTool" where
  "as_ChatCompletionTool tool =
     (let func = (case get_field tool ''function'' of None \<Rightarrow> JNull | Some f \<Rightarrow> f)
      in \<lparr> function_name = (case get_field func ''name'' of Some (JStr s) \<Rightarrow> s | _ \<Rightarrow> []),
           function_description = (case get_field func ''description'' of Some (JStr s) \<Rightarrow> Some s | _ \<Rightarrow> None),
           function_parameters = get_field func ''parameters'',
           function_strict = get_field func ''strict'' \<rparr>)"

text \<open>A number in a template string, in decimal.\<close>

fun decimal :: "nat \<Rightarrow> string" where
  "decimal n =
     (if n < 10 then [char_of (48 + n)]
      else decimal (n div 10) @ [char_of (48 + n mod 10)])"

text \<open>
  \<^verbatim>\<open>validateToolConfiguration\<close>. \<^verbatim>\<open>Object.keys(functions).length\<close> counts the own
  properties; \<^verbatim>\<open>functions[functionName]\<close> is the property read described above.
\<close>

definition validateToolConfiguration :: "ChatCompletionTool list \<Rightarrow> ToolFunctions \<Rightarrow> thrown + unit" where
  "validateToolConfiguration fnDefinitions functions =
     (let definitionCount = length fnDefinitions;
          functionCount = length (Object_keys functions)
      in if definitionCount \<noteq> functionCount
         then Inl (Err ValidationError
                (''Mismatch between number of function definitions ('' @ decimal definitionCount
                 @ '') and implementations ('' @ decimal functionCount @ '')''))
         else
           (case find (\<lambda>d. get_property functions (function_name d) = None) fnDefinitions of
              Some d \<Rightarrow>
                Inl (Err ToolNotFoundError
                  (''Tool not found: '' @ ''Missing function implementation for tool: '' @ function_name d))
            | None \<Rightarrow> Inr ()))"

section \<open>The state of the program\<close>

text \<open>
  The request parameters the orchestrator reads: \<^verbatim>\<open>user\<close> and \<^verbatim>\<open>tools\<close>, with the model
  id. \<^verbatim>\<open>custom_params\<close> is a partial record of the same fields.
\<close>

record AgentCompletionParams =
  model :: string
  user :: "string option"
  tools :: "ChatCompletionTool list option"

record PartialCompletionParams =
  custom_model :: "string option"
  custom_user :: "string option"
  custom_tools :: "ChatCompletionTool list option"

text \<open>
  Arrays of messages live in a heap, so that two references to one array see each other's
  pushes: \<^verbatim>\<open>this.defaultHistoryMessages\<close> holds the address of the template array, when
  the agent was constructed with one. The record holds the fields of the agent, the static
  \<^verbatim>\<open>OpenAIAgent.toolsDirPath\<close> and the registry singleton \<^verbatim>\<open>ToolsRegistry.instance\<close>.
\<close>

record world =
  heap :: "nat \<Rightarrow> ChatCompletionMessage list"
  next_free :: nat
  completionParams :: AgentCompletionParams
  defaultHistoryMessages :: "nat option"
  Storage :: "AgentStorage option"
  system_instruction :: "string option"
  historyOptions :: "HistoryOptions option"
  toolsDirPath :: "string option"
  ToolsRegistry_instance :: "AgentTools option"

text \<open>A new empty array; \<^verbatim>\<open>push\<close>, \<^verbatim>\<open>shift\<close> and \<^verbatim>\<open>unshift\<close> on the array at an address.\<close>

definition new_array :: "world \<Rightarrow> nat \<times> world" where
  "new_array w = (next_free w, w\<lparr>heap := (heap w)(next_free w := []), next_free := Suc (next_free w)\<rparr>)"

definition push :: "world \<Rightarrow> nat \<Rightarrow> ChatCompletionMessage list \<Rightarrow> world" where
  "push w a ms = w\<lparr>heap := (heap w)(a := heap w a @ ms)\<rparr>"

definition shift :: "world \<Rightarrow> nat \<Rightarrow> world" where
  "shift w a = w\<lparr>heap := (heap w)(a := tl (heap w a))\<rparr>"

definition unshift :: "world \<Rightarrow> nat \<Rightarrow> ChatCompletionMessage \<Rightarrow> world" where
  "unshift w a m = w\<lparr>heap := (heap w)(a := m # heap w a)\<rparr>"

section \<open>Loading the tools directory\<close>

text \<open>
  The tool source. A directory entry has a name, what \<^verbatim>\<open>fs.stat\<close> says of it (\<open>None\<close>: it
  fails) and what \<^verbatim>\<open>import\<close> gives (\<open>None\<close>: it fails): the entries of
  \<^verbatim>\<open>fileFunctions.default || fileFunctions\<close>, each a function or another value. A path
  names a directory that \<^verbatim>\<open>fs.access\<close> rejects, one that \<^verbatim>\<open>fs.readdir\<close> rejects, or
  one with its entries.
\<close>

datatype export = Function_export ToolFunction | Value_export json

record tool_file =
  file_name :: string
  is_file :: "bool option"
  exports :: "(string \<times> export) list option"

datatype fs_node = No_access | Unreadable | Directory "tool_file list"

definition endsWith :: "string \<Rightarrow> string \<Rightarrow> bool" where
  "endsWith s suffix \<longleftrightarrow> length suffix \<le> length s \<and> drop (length s - length suffix) s = suffix"

text \<open>\<^verbatim>\<open>path.join(dirPath, file)\<close> for a directory path with no trailing separator.\<close>

definition path_join :: "string \<Rightarrow> string \<Rightarrow> string" where
  "path_join dirPath file = dirPath @ ''/'' @ file"

text \<open>\<^verbatim>\<open>new InvalidToolError(filePath, functionName, message)\<close>\<close>

definition InvalidTool :: "string \<Rightarrow> string \<Rightarrow> string \<Rightarrow> thrown" where
  "InvalidTool filePath functionName msg =
     Err InvalidToolError (''Invalid tool found at '' @ filePath @ '': '' @ functionName @ ''. '' @ msg)"

text \<open>The loop over the entries of one module (\<^verbatim>\<open>Object.entries(funcs)\<close>).\<close>

fun process_exports :: "string \<Rightarrow> (string \<times> export) list \<Rightarrow> AgentTools \<Rightarrow> thrown + AgentTools" where
  "process_exports fullPath [] acc = Inr acc"
| "process_exports fullPath ((fnName, Function_export f) # rest) acc =
     process_exports fullPath rest (acc\<lparr>toolFunctions := AList.update fnName f (toolFunctions acc)\<rparr>)"
| "process_exports fullPath ((fnName, Value_export v) # rest) acc =
     (case validateChatCompletionTool (Some v) of
        Inl (Err ValidationError msg) \<Rightarrow>
          Inl (InvalidTool fullPath fnName (''Invalid tool definition: '' @ msg))
      | Inl e \<Rightarrow> Inl (InvalidTool fullPath fnName ''Unexpected error validating tool'')
      | Inr u \<Rightarrow>
          process_exports fullPath rest
            (acc\<lparr>toolDefinitions := toolDefinitions acc @ [as_ChatCompletionTool v]\<rparr>))"

text \<open>The loop over the directory entries.\<close>

fun process_files :: "string \<Rightarrow> tool_file list \<Rightarrow> AgentTools \<Rightarrow> thrown + AgentTools" where
  "process_files dirPath [] acc = Inr acc"
| "process_files dirPath (file # files) acc =
     (if \<not> endsWith (file_name file) ''.js'' \<and> \<not> endsWith (file_name file) ''.ts''
      then process_files dirPath files acc
      else
        (let fullPath = path_join dirPath (file_name file)
         in case is_file file of
              None \<Rightarrow> Inl (Err FileReadError (''Error reading file: '' @ fullPath))
            | Some False \<Rightarrow> process_files dirPath files acc
            | Some True \<Rightarrow>
                (case exports file of
                   None \<Rightarrow> Inl (Err FileImportError (''Error importing file: '' @ fullPath))
                 | Some funcs \<Rightarrow>
                     (case process_exports fullPath funcs acc of
                        Inl e \<Rightarrow> Inl e
                      | Inr acc' \<Rightarrow> process_files dirPath files acc'))))"

text \<open>The classes the outer \<^verbatim>\<open>catch\<close> of \<^verbatim>\<open>loadToolsDirFiles\<close> rethrows as they are.\<close>

fun rethrown_by_load :: "thrown \<Rightarrow> bool" where
  "rethrown_by_load (Err c m) =
     (c = DirectoryAccessError \<or> c = FileReadError \<or> c = FileImportError
      \<or> c = InvalidToolError \<or> c = ToolConfigurationError \<or> c = ValidationError)"
| "rethrown_by_load Non_error = False"

text \<open>
  \<^verbatim>\<open>loadToolsDirFiles(dirPath)\<close>: the \<^verbatim>\<open>try\<close> block first, then the function with its
  \<^verbatim>\<open>catch\<close>. The snapshot is published by \<^verbatim>\<open>ToolsRegistry.setInstance\<close>.
\<close>

definition load_attempt :: "(string \<Rightarrow> fs_node) \<Rightarrow> string \<Rightarrow> thrown + AgentTools" where
  "load_attempt fs dirPath =
     (case fs dirPath of
        No_access \<Rightarrow>
          Inl (Err DirectoryAccessError (''Was not possible to access the directory: '' @ dirPath))
      | Unreadable \<Rightarrow> Inl (Err FileReadError (''Error reading file: '' @ dirPath))
      | Directory files \<Rightarrow>
          (case process_files dirPath files \<lparr>toolDefinitions = [], toolFunctions = []\<rparr> of
             Inl e \<Rightarrow> Inl e
           | Inr loaded \<Rightarrow>
               (case validateToolConfiguration (toolDefinitions loaded) (toolFunctions loaded) of
                  Inl e \<Rightarrow> Inl e
                | Inr u \<Rightarrow> Inr loaded)))"

definition loadToolsDirFiles :: "(string \<Rightarrow> fs_node) \<Rightarrow> world \<Rightarrow> string \<Rightarrow> (thrown + AgentTools) \<times> world" where
  "loadToolsDirFiles fs w dirPath =
     (case load_attempt fs dirPath of
        Inr loaded \<Rightarrow> (Inr loaded, w\<lparr>ToolsRegistry_instance := Some loaded\<rparr>)
      | Inl e \<Rightarrow>
          (if rethrown_by_load e then (Inl e, w)
           else (Inl (Err Error (''Unexpected error loading tools: '' @ errorMessage e)), w)))"

section \<open>Resolving the requested tools\<close>

text \<open>\<^verbatim>\<open>names.join(separator)\<close>\<close>

fun join :: "string list \<Rightarrow> string \<Rightarrow> string" where
  "join [] separator = []"
| "join [x] separator = x"
| "join (x # y # xs) separator = x @ separator @ join (y # xs) separator"

text \<open>
  The result \<^verbatim>\<open>{toolFunctions, toolChoices}\<close>; its first field is named
  \<open>importedFunctions\<close> here, \<open>toolFunctions\<close> being a field of \<open>AgentTools\<close>.
\<close>

record ToolChoices =
  importedFunctions :: ToolFunctions
  toolChoices :: "ChatCompletionTool list"

definition import_attempt :: "(string \<Rightarrow> fs_node) \<Rightarrow> world \<Rightarrow> string list \<Rightarrow> (thrown + ToolChoices) \<times> world" where
  "import_attempt fs w toolNames =
     (if toolsDirPath w = None \<or> toolsDirPath w = Some []
      then (Inl (Err ValidationError
              ''Tools directory path not set. Call loadToolsDirFiles with your tools directory path first.''), w)
      else
        (case (case ToolsRegistry_instance w of
                 Some registered \<Rightarrow> (Inr registered, w)
               | None \<Rightarrow> loadToolsDirFiles fs w (the (toolsDirPath w))) of
           (Inl e, w') \<Rightarrow> (Inl e, w')
         | (Inr registered, w') \<Rightarrow>
             (let choices = List.map_filter
                              (\<lambda>toolName. find (\<lambda>tool. function_name tool = toolName) (toolDefinitions registered))
                              toolNames;
                  missingTools = filter (\<lambda>n. \<not> list_ex (\<lambda>tool. function_name tool = n) choices) toolNames
              in if length missingTools > 0
                 then (Inl (Err ToolNotFoundError
                         (''Tool not found: '' @ ''The following tools were not found: ''
                          @ join missingTools '', '')), w')
                 else (Inr \<lparr>importedFunctions = toolFunctions registered, toolChoices = choices\<rparr>, w'))))"

fun rethrown_by_import :: "thrown \<Rightarrow> bool" where
  "rethrown_by_import (Err c m) = (c = ValidationError \<or> c = ToolNotFoundError)"
| "rethrown_by_import Non_error = False"

definition importToolFunctions :: "(string \<Rightarrow> fs_node) \<Rightarrow> world \<Rightarrow> string list \<Rightarrow> (thrown + ToolChoices) \<times> world" where
  "importToolFunctions fs w toolNames =
     (case import_attempt fs w toolNames of
        (Inr r, w') \<Rightarrow> (Inr r, w')
      | (Inl e, w') \<Rightarrow>
          (if rethrown_by_import e then (Inl e, w')
           else (Inl (Err Error (''Failed to import tool functions: '' @ errorMessage e)), w')))"

section \<open>The tool dispatcher\<close>

text \<open>\<^verbatim>\<open>'${name}'\<close> in a template string.\<close>

definition quoted :: "string \<Rightarrow> string" where
  "quoted s = [CHR 0x27] @ s @ [CHR 0x27]"

text \<open>The \<^verbatim>\<open>try\<close> block of the loop body: the value to serialise, or what was thrown.\<close>

definition call_attempt :: "ToolFunctions \<Rightarrow> tool_call \<Rightarrow> thrown + json" where
  "call_attempt functions tool =
     (case get_property functions (call_name tool) of
        None \<Rightarrow> Inl (Err Error (''Function '' @ quoted (call_name tool) @ '' not found''))
      | Some currentFunction \<Rightarrow>
          (case call_arguments tool of
             Malformed args \<Rightarrow>
               Inl (Err Error (''Invalid arguments format for function '' @ quoted (call_name tool)
                               @ '': '' @ args))
           | Well_formed parsedArgs \<Rightarrow>
               (case call_property currentFunction parsedArgs of
                  Throws e \<Rightarrow> Inl e
                | Returns_undefined \<Rightarrow>
                    Inl (Err Error (''Function '' @ quoted (call_name tool) @ '' returned no response''))
                | Returns functionResponse \<Rightarrow> Inr functionResponse)))"

text \<open>The loop body with its \<^verbatim>\<open>catch\<close>: the one message pushed for a call.\<close>

definition tool_message :: "ToolFunctions \<Rightarrow> tool_call \<Rightarrow> ChatCompletionMessage" where
  "tool_message functions tool =
     (case call_attempt functions tool of
        Inr functionResponse \<Rightarrow>
          \<lparr>role = Tool, content = Stringified functionResponse, tool_calls = None,
           tool_call_id = Some (call_id tool)\<rparr>
      | Inl e \<Rightarrow>
          \<lparr>role = Tool, content = Stringified (JObj [(''error'', JStr (errorMessage e))]),
           tool_calls = None, tool_call_id = Some (call_id tool)\<rparr>)"

text \<open>\<^verbatim>\<open>_callChosenFunctions(responseMessage, functions)\<close>\<close>

definition callChosenFunctions ::
  "ChatCompletionMessage \<Rightarrow> ToolFunctions \<Rightarrow> thrown + ChatCompletionMessage list" where
  "callChosenFunctions responseMessage functions =
     (case tool_calls responseMessage of
        None \<Rightarrow> Inl (Err Error ''No tool calls found in the response message'')
      | Some [] \<Rightarrow> Inl (Err Error ''No tool calls found in the response message'')
      | Some calls \<Rightarrow> Inr (map (tool_message functions) calls))"

section \<open>The completion provider\<close>

text \<open>
  A response carries its choices, each with a message or none, and a usage record. The
  provider answers a request (the parameters and the messages as they stand when the
  request is sent) with a response, or throws.
\<close>

record ChatCompletion =
  choices :: "ChatCompletionMessage option list"
  usage :: "CompletionUsage option"

record request =
  request_params :: AgentCompletionParams
  request_messages :: "ChatCompletionMessage list"

type_synonym provider = "request \<Rightarrow> thrown + ChatCompletion"

text \<open>\<^verbatim>\<open>response.choices[0].message\<close>; with no choice at all the property read throws.\<close>

definition first_message :: "ChatCompletion \<Rightarrow> thrown + ChatCompletionMessage option" where
  "first_message response =
     (case choices response of
        [] \<Rightarrow> Inl (Err TypeError (''Cannot read properties of undefined (reading '' @ quoted ''message'' @ '')''))
      | c # cs \<Rightarrow> Inr c)"

text \<open>
  Modelled from the spec: \<^verbatim>\<open>handleNResponses\<close> and \<^verbatim>\<open>getCompletionsUsage\<close> of the
  current src/utils.ts, which is not among the sources. The spec gives the result
  \<open>choices: text[]\<close> and a usage aggregated field-wise over the one or two responses, a
  missing operand counting as zero.
\<close>

definition handleNResponses :: "ChatCompletion \<Rightarrow> string list" where
  "handleNResponses response =
     map (\<lambda>c. case c of
                 None \<Rightarrow> []
               | Some m \<Rightarrow> (case content m of Plain s \<Rightarrow> s | _ \<Rightarrow> []))
         (choices response)"

definition getCompletionsUsage :: "ChatCompletion \<Rightarrow> ChatCompletion option \<Rightarrow> CompletionUsage" where
  "getCompletionsUsage response secondResponse =
     getTokensUsage (usage response) (case secondResponse of None \<Rightarrow> None | Some r \<Rightarrow> usage r)"

section \<open>The agent (class OpenAIAgent)\<close>

record CompletionResult =
  result_choices :: "string list"
  total_usage :: CompletionUsage
  completion_messages :: "ChatCompletionMessage list"
  completions :: "ChatCompletion list"

text \<open>
  The options of \<^verbatim>\<open>createChatCompletion\<close>; \<open>call_instruction\<close> is the field
  \<^verbatim>\<open>system_instruction\<close> of the call.
\<close>

record CreateChatCompletionOptions =
  message :: string
  call_instruction :: "string option"
  tool_choices :: "string list option"
  custom_params :: "PartialCompletionParams option"
  history :: "HistoryOptions option"

text \<open>
  The options of the constructor: the completion parameters, with \<^verbatim>\<open>messages\<close> (the
  address of the caller's array, if one is given) and \<^verbatim>\<open>system_instruction\<close>. The
  constructor checks the environment variable and the model id, and keeps the reference
  to the caller's array as the template; the agent starts with no store and no history
  options. The state given holds the heap and the static fields.
\<close>

record AgentOptions =
  agent_params :: AgentCompletionParams
  agent_messages :: "nat option"
  agent_system_instruction :: "string option"

definition construct :: "string option \<Rightarrow> world \<Rightarrow> AgentOptions \<Rightarrow> thrown + world" where
  "construct OPENAI_API_KEY w agentOptions =
     (if OPENAI_API_KEY = None \<or> OPENAI_API_KEY = Some []
      then Inl (Err Error ''Missing required environment variables: OPENAI_API_KEY'')
      else if model (agent_params agentOptions) = []
      then Inl (Err ValidationError ''Model is required to initialize the agent instance'')
      else Inr (w\<lparr>system_instruction := agent_system_instruction agentOptions,
                  defaultHistoryMessages := agent_messages agentOptions,
                  completionParams := agent_params agentOptions,
                  Storage := None, historyOptions := None\<rparr>))"

text \<open>Truthiness of a string that may be \<^verbatim>\<open>undefined\<close>: defined and not empty.\<close>

definition truthy :: "string option \<Rightarrow> bool" where
  "truthy s \<longleftrightarrow> s \<noteq> None \<and> s \<noteq> Some []"

definition system_message :: "string \<Rightarrow> ChatCompletionMessage" where
  "system_message s = \<lparr>role = System, content = Plain s, tool_calls = None, tool_call_id = None\<rparr>"

definition user_message :: "string \<Rightarrow> ChatCompletionMessage" where
  "user_message s = \<lparr>role = User, content = Plain s, tool_calls = None, tool_call_id = None\<rparr>"

text \<open>\<^verbatim>\<open>_handleSystemInstructionMessage(defaultInstruction, customInstruction)\<close>\<close>

definition handleSystemInstructionMessage :: "string option \<Rightarrow> string option \<Rightarrow> ChatCompletionMessage" where
  "handleSystemInstructionMessage defaultInstruction customInstruction =
     (if truthy defaultInstruction \<and> \<not> truthy customInstruction
      then system_message (the defaultInstruction)
      else if truthy customInstruction then system_message (the customInstruction)
      else system_message [])"

text \<open>One key of an object spread \<^verbatim>\<open>{...a, ...b}\<close>: the later operand wins where it has the key.\<close>

definition spread :: "'a option \<Rightarrow> 'a option \<Rightarrow> 'a option" where
  "spread a b = (case b of None \<Rightarrow> a | Some v \<Rightarrow> Some v)"

definition merge_params :: "AgentCompletionParams \<Rightarrow> PartialCompletionParams option \<Rightarrow> AgentCompletionParams" where
  "merge_params base custom =
     (case custom of
        None \<Rightarrow> base
      | Some c \<Rightarrow>
          \<lparr>model = (case custom_model c of None \<Rightarrow> model base | Some m \<Rightarrow> m),
           user = spread (user base) (custom_user c),
           tools = spread (tools base) (custom_tools c)\<rparr>)"

definition merge_history :: "HistoryOptions option \<Rightarrow> HistoryOptions option \<Rightarrow> HistoryOptions" where
  "merge_history a b =
     \<lparr>appended_messages = spread (case a of None \<Rightarrow> None | Some h \<Rightarrow> appended_messages h)
                                 (case b of None \<Rightarrow> None | Some h \<Rightarrow> appended_messages h),
      remove_tool_messages = spread (case a of None \<Rightarrow> None | Some h \<Rightarrow> remove_tool_messages h)
                                    (case b of None \<Rightarrow> None | Some h \<Rightarrow> remove_tool_messages h)\<rparr>"

text \<open>
  \<^verbatim>\<open>_getContextMessages(queryParams, historyOptions)\<close>: the answer is the address of the
  working array, which is the template array itself when the agent has one.
\<close>

definition getContextMessages :: "world \<Rightarrow> AgentCompletionParams \<Rightarrow> HistoryOptions \<Rightarrow> (thrown + nat) \<times> world" where
  "getContextMessages w queryParams options =
     (let userId = (case user queryParams of None \<Rightarrow> ''default'' | Some u \<Rightarrow> if u = [] then ''default'' else u);
          (fresh, w1) = new_array w;
          templateMessages = (case defaultHistoryMessages w1 of None \<Rightarrow> fresh | Some a \<Rightarrow> a)
      in case Storage w1 of
           None \<Rightarrow> (Inr templateMessages, w1)
         | Some st \<Rightarrow>
             (case getStoredMessages st userId (Some options) of
                (Inl e, st') \<Rightarrow> (Inl e, w1\<lparr>Storage := Some st'\<rparr>)
              | (Inr storedMessages, st') \<Rightarrow>
                  (Inr templateMessages, push (w1\<lparr>Storage := Some st'\<rparr>) templateMessages storedMessages)))"

text \<open>
  The history options of a turn: \<^verbatim>\<open>{...this.historyOptions, ...options.history}\<close>, with
  \<^verbatim>\<open>remove_tool_messages\<close> forced when a store is attached, tool choices are given and the
  agent's own options carry a limit.
\<close>

definition turn_history_options :: "world \<Rightarrow> CreateChatCompletionOptions \<Rightarrow> HistoryOptions" where
  "turn_history_options w options =
     (let merged = merge_history (historyOptions w) (history options)
      in if Storage w \<noteq> None \<and> tool_choices options \<noteq> None
            \<and> (case historyOptions w of
                  None \<Rightarrow> False
                | Some h \<Rightarrow> (case appended_messages h of None \<Rightarrow> False | Some k \<Rightarrow> k \<noteq> 0))
         then merged\<lparr>remove_tool_messages := Some True\<rparr>
         else merged)"

text \<open>
  The first part of \<^verbatim>\<open>createChatCompletion\<close>, up to \<^verbatim>\<open>queryParams.messages = storedMessages\<close>:
  the answer is the address held by \<^verbatim>\<open>queryParams.messages\<close>, the other request
  parameters and \<^verbatim>\<open>newMessages\<close>. These statements stand before the \<^verbatim>\<open>try\<close>.
\<close>

definition assemble ::
  "world \<Rightarrow> CreateChatCompletionOptions
   \<Rightarrow> (thrown + nat \<times> AgentCompletionParams \<times> ChatCompletionMessage list) \<times> world" where
  "assemble w options =
     (let queryParams = merge_params (completionParams w) (custom_params options);
          options1 = turn_history_options w options
      in case getContextMessages w queryParams options1 of
           (Inl e, w1) \<Rightarrow> (Inl e, w1)
         | (Inr storedMessages, w1) \<Rightarrow>
             (let systemImstructionMessage =
                    handleSystemInstructionMessage (system_instruction w1) (call_instruction options);
                  w2 = (if content systemImstructionMessage \<noteq> Plain []
                        then unshift
                               (case heap w1 storedMessages of
                                  [] \<Rightarrow> w1
                                | m # ms \<Rightarrow> if role m = System then shift w1 storedMessages else w1)
                               storedMessages systemImstructionMessage
                        else w1);
                  newMessages = [user_message (message options)];
                  w3 = push w2 storedMessages newMessages
              in (Inr (storedMessages, queryParams, newMessages), w3)))"

text \<open>\<^verbatim>\<open>if (this.Storage) await this.Storage.saveChatHistory(queryParams.user, newMessages)\<close>\<close>

definition persist :: "world \<Rightarrow> string option \<Rightarrow> ChatCompletionMessage list \<Rightarrow> (thrown + unit) \<times> world" where
  "persist w userId newMessages =
     (case Storage w of
        None \<Rightarrow> (Inr (), w)
      | Some st \<Rightarrow>
          (case saveChatHistory st userId newMessages of
             (Inl e, st') \<Rightarrow> (Inl e, w\<lparr>Storage := Some st'\<rparr>)
           | (Inr stored, st') \<Rightarrow> (Inr (), w\<lparr>Storage := Some st'\<rparr>)))"

text \<open>
  \<^verbatim>\<open>_handleToolCompletion(response, queryParams, newMessages, toolFunctions)\<close>;
  \<open>messages\<close> is the address in \<^verbatim>\<open>queryParams.messages\<close>. The orchestrator calls it
  with a response whose first message it has checked; for another response the read of
  \<^verbatim>\<open>tool_calls\<close> throws.
\<close>

definition handleToolCompletion ::
  "provider \<Rightarrow> world \<Rightarrow> ChatCompletion \<Rightarrow> AgentCompletionParams \<Rightarrow> nat \<Rightarrow> ChatCompletionMessage list
   \<Rightarrow> ToolFunctions \<Rightarrow> (thrown + CompletionResult) \<times> world" where
  "handleToolCompletion provider w response queryParams messages newMessages functions =
     (let (a, w0) = (if heap w messages = [] then new_array w else (messages, w))
      in case first_message response of
           Inl e \<Rightarrow> (Inl e, w0)
         | Inr None \<Rightarrow>
             (Inl (Err TypeError (''Cannot read properties of undefined (reading '' @ quoted ''tool_calls'' @ '')'')),
              w0)
         | Inr (Some responseMessage) \<Rightarrow>
             (let w1 = push w0 a [responseMessage]
              in case callChosenFunctions responseMessage functions of
                   Inl e \<Rightarrow> (Inl e, w1)
                 | Inr toolMessages \<Rightarrow>
                     (let w2 = push w1 a toolMessages;
                          newMessages1 = newMessages @ toolMessages
                      in case provider \<lparr>request_params = queryParams, request_messages = heap w2 a\<rparr> of
                           Inl e \<Rightarrow> (Inl e, w2)
                         | Inr secondResponse \<Rightarrow>
                             (case first_message secondResponse of
                                Inl e \<Rightarrow> (Inl e, w2)
                              | Inr None \<Rightarrow>
                                  (Inl (Err Error
                                     ''No response message received from second tool query to OpenAI''), w2)
                              | Inr (Some secondResponseMessage) \<Rightarrow>
                                  (let newMessages2 = newMessages1 @ [secondResponseMessage]
                                   in case persist w2 (user queryParams) newMessages2 of
                                        (Inl e, w3) \<Rightarrow> (Inl e, w3)
                                      | (Inr u, w3) \<Rightarrow>
                                          (Inr \<lparr>result_choices = handleNResponses secondResponse,
                                                total_usage = getCompletionsUsage response (Some secondResponse),
                                                completion_messages = newMessages2,
                                                completions = [response, secondResponse]\<rparr>,
                                           w3))))))"

text \<open>The first statement of the \<^verbatim>\<open>try\<close> block: the requested tools, when any are named.\<close>

definition resolve_tools ::
  "(string \<Rightarrow> fs_node) \<Rightarrow> world \<Rightarrow> AgentCompletionParams \<Rightarrow> string list option
   \<Rightarrow> (thrown + AgentCompletionParams \<times> ToolFunctions option) \<times> world" where
  "resolve_tools fs w queryParams names =
     (case names of
        None \<Rightarrow> (Inr (queryParams, None), w)
      | Some [] \<Rightarrow> (Inr (queryParams, None), w)
      | Some requested \<Rightarrow>
          (case importToolFunctions fs w requested of
             (Inl e, w1) \<Rightarrow> (Inl e, w1)
           | (Inr chosen, w1) \<Rightarrow>
               (Inr (queryParams\<lparr>tools := Some (toolChoices chosen)\<rparr>, Some (importedFunctions chosen)), w1)))"

text \<open>The \<^verbatim>\<open>try\<close> block of \<^verbatim>\<open>createChatCompletion\<close>.\<close>

definition complete ::
  "provider \<Rightarrow> (string \<Rightarrow> fs_node) \<Rightarrow> world \<Rightarrow> nat \<Rightarrow> AgentCompletionParams \<Rightarrow> ChatCompletionMessage list
   \<Rightarrow> CreateChatCompletionOptions \<Rightarrow> (thrown + CompletionResult) \<times> world" where
  "complete provider fs w messages queryParams newMessages options =
     (case resolve_tools fs w queryParams (tool_choices options) of
        (Inl e, w1) \<Rightarrow> (Inl e, w1)
      | (Inr (queryParams1, functions), w1) \<Rightarrow>
          (case provider \<lparr>request_params = queryParams1, request_messages = heap w1 messages\<rparr> of
             Inl e \<Rightarrow> (Inl e, w1)
           | Inr response \<Rightarrow>
               (case first_message response of
                  Inl e \<Rightarrow> (Inl e, w1)
                | Inr None \<Rightarrow> (Inl (Err Error ''No response message received from OpenAI''), w1)
                | Inr (Some responseMessage) \<Rightarrow>
                    (let newMessages1 = newMessages @ [responseMessage]
                     in if tool_calls responseMessage \<noteq> None \<and> functions \<noteq> None
                        then handleToolCompletion provider w1 response queryParams1 messages newMessages1
                               (the functions)
                        else
                          (case persist w1 (user queryParams1) newMessages1 of
                             (Inl e, w2) \<Rightarrow> (Inl e, w2)
                           | (Inr u, w2) \<Rightarrow>
                               (Inr \<lparr>result_choices = handleNResponses response,
                                     total_usage = getCompletionsUsage response None,
                                     completion_messages = newMessages1,
                                     completions = [response]\<rparr>,
                                w2))))))"

text \<open>\<^verbatim>\<open>createChatCompletion(options)\<close>: the assembly, then the \<^verbatim>\<open>try\<close> block with its \<^verbatim>\<open>catch\<close>.\<close>

definition createChatCompletion ::
  "provider \<Rightarrow> (string \<Rightarrow> fs_node) \<Rightarrow> world \<Rightarrow> CreateChatCompletionOptions
   \<Rightarrow> (thrown + CompletionResult) \<times> world" where
  "createChatCompletion provider fs w options =
     (case assemble w options of
        (Inl e, w1) \<Rightarrow> (Inl e, w1)
      | (Inr (messages, queryParams, newMessages), w1) \<Rightarrow>
          (case complete provider fs w1 messages queryParams newMessages options of
             (Inl e, w2) \<Rightarrow> (Inl (Err Error (''Chat completion failed: '' @ errorMessage e)), w2)
           | (Inr r, w2) \<Rightarrow> (Inr r, w2)))"

text \<open>The other public methods of the agent.\<close>

definition loadToolFuctions :: "(string \<Rightarrow> fs_node) \<Rightarrow> world \<Rightarrow> string \<Rightarrow> (thrown + bool) \<times> world" where
  "loadToolFuctions fs w toolsDirAddr =
     (if toolsDirAddr = [] then (Inl (Err ValidationError ''Tools directory path required.''), w)
      else
        (case loadToolsDirFiles fs w toolsDirAddr of
           (Inl e, w1) \<Rightarrow> (Inl e, w1)
         | (Inr loaded, w1) \<Rightarrow> (Inr True, w1\<lparr>toolsDirPath := Some toolsDirAddr\<rparr>)))"

definition setStorage :: "world \<Rightarrow> redis_client option \<Rightarrow> HistoryOptions option \<Rightarrow> (thrown + bool) \<times> world" where
  "setStorage w client options =
     (case client of
        None \<Rightarrow> (Inl (Err ValidationError ''Instance of RedisClientType required.''), w)
      | Some c \<Rightarrow>
          (Inr True,
           w\<lparr>historyOptions := (case options of None \<Rightarrow> historyOptions w | Some h \<Rightarrow> Some h),
             Storage := Some \<lparr>redisClient = Some c\<rparr>\<rparr>))"

definition deleteChatHistory :: "world \<Rightarrow> string \<Rightarrow> (thrown + bool) \<times> world" where
  "deleteChatHistory w userId =
     (case Storage w of
        None \<Rightarrow> (Inl (Err ValidationError ''Agent storage is not initalized.''), w)
      | Some st \<Rightarrow>
          (case deleteHistory st userId of
             (Inl e, st') \<Rightarrow> (Inl e, w\<lparr>Storage := Some st'\<rparr>)
           | (Inr n, st') \<Rightarrow> (Inr True, w\<lparr>Storage := Some st'\<rparr>)))"

definition getChatHistory ::
  "world \<Rightarrow> string \<Rightarrow> HistoryOptions option \<Rightarrow> (thrown + ChatCompletionMessage list) \<times> world" where
  "getChatHistory w userId options =
     (case Storage w of
        None \<Rightarrow> (Inr [], w)
      | Some st \<Rightarrow>
          (case getStoredMessages st userId options of
             (r, st') \<Rightarrow> (r, w\<lparr>Storage := Some st'\<rparr>)))"

section \<open>Observations used in the statements\<close>

text \<open>The log of a user in the history store of the agent; empty without a store.\<close>

definition history_log :: "world \<Rightarrow> string \<Rightarrow> ChatCompletionMessage list" where
  "history_log w key = (case Storage w of None \<Rightarrow> [] | Some st \<Rightarrow> user_log st key)"

text \<open>
  What the history read of a turn fetches: the answer of \<^verbatim>\<open>getStoredMessages\<close> for the
  user and the history options of the turn, and no message without a store.
\<close>

definition fetched :: "world \<Rightarrow> CreateChatCompletionOptions \<Rightarrow> thrown + ChatCompletionMessage list" where
  "fetched w options =
     (case Storage w of
        None \<Rightarrow> Inr []
      | Some st \<Rightarrow>
          fst (getStoredMessages st
                 (case user (merge_params (completionParams w) (custom_params options)) of
                    None \<Rightarrow> ''default''
                  | Some u \<Rightarrow> if u = [] then ''default'' else u)
                 (Some (turn_history_options w options))))"

text \<open>A sequence without its leading system message, when it has one.\<close>

definition without_leading_system :: "ChatCompletionMessage list \<Rightarrow> ChatCompletionMessage list" where
  "without_leading_system ms = (case ms of [] \<Rightarrow> [] | m # rest \<Rightarrow> if role m = System then rest else ms)"

text \<open>Several turns in a row, each from the state the turn before left.\<close>

fun turns :: "provider \<Rightarrow> (string \<Rightarrow> fs_node) \<Rightarrow> world \<Rightarrow> CreateChatCompletionOptions list \<Rightarrow> world" where
  "turns provider fs w [] = w"
| "turns provider fs w (options # rest) = turns provider fs (snd (createChatCompletion provider fs w options)) rest"

text \<open>Proof device: the client after one served command.\<close>

definition served :: "redis_client \<Rightarrow> redis_client" where
  "served c = c\<lparr>commands_left := map_option (\<lambda>n. n - 1) (commands_left c)\<rparr>"

section \<open>Example values\<close>

definition example_hi :: ChatCompletionMessage where
  "example_hi = user_message ''hi''"

definition example_hello :: ChatCompletionMessage where
  "example_hello = \<lparr>role = Assistant, content = Plain ''hello'', tool_calls = None, tool_call_id = None\<rparr>"

definition example_bye :: ChatCompletionMessage where
  "example_bye = user_message ''bye''"

text \<open>A store that stays up, with a log of three messages for the user \<open>u1\<close>.\<close>

definition example_client :: redis_client where
  "example_client =
     \<lparr>commands_left = None,
      lists = Map.empty(''user:u1'' \<mapsto> [example_bye, example_hello, example_hi])\<rparr>"

definition example_storage :: AgentStorage where
  "example_storage = \<lparr>redisClient = Some example_client\<rparr>"

text \<open>A log of five messages for \<open>u1\<close>, and an agent whose history store is this one.\<close>

definition example_five :: AgentStorage where
  "example_five =
     \<lparr>redisClient = Some
        \<lparr>commands_left = None,
         lists = Map.empty(''user:u1'' \<mapsto> [example_hello, example_bye, example_hello, example_hi, example_hi])\<rparr>\<rparr>"

definition example_world :: world where
  "example_world =
     \<lparr>heap = (\<lambda>a. []), next_free = 0,
      completionParams = \<lparr>model = ''gpt-4o'', user = Some ''u1'', tools = None\<rparr>,
      defaultHistoryMessages = None, Storage = None, system_instruction = None,
      historyOptions = None, toolsDirPath = None, ToolsRegistry_instance = None\<rparr>"

text \<open>A registry snapshot with two tools, and an agent that uses it.\<close>

definition example_weather :: ChatCompletionTool where
  "example_weather =
     \<lparr>function_name = ''get_weather'', function_description = Some ''The weather of a city'',
      function_parameters = None, function_strict = None\<rparr>"

definition example_time :: ChatCompletionTool where
  "example_time =
     \<lparr>function_name = ''get_time'', function_description = None,
      function_parameters = None, function_strict = None\<rparr>"

definition example_tools :: AgentTools where
  "example_tools =
     \<lparr>toolDefinitions = [example_weather, example_time],
      toolFunctions = [(''get_weather'', \<lambda>args. Returns (JStr ''sunny'')),
                       (''get_time'', \<lambda>args. Returns_undefined)]\<rparr>"

definition example_tooled :: world where
  "example_tooled = example_world\<lparr>toolsDirPath := Some ''./tools'', ToolsRegistry_instance := Some example_tools\<rparr>"

text \<open>A tool call, and an assistant message that carries tool calls.\<close>

definition example_call :: "string \<Rightarrow> string \<Rightarrow> raw_arguments \<Rightarrow> tool_call" where
  "example_call i n a = \<lparr>call_id = i, call_name = n, call_arguments = a\<rparr>"

definition example_request_for :: "tool_call list \<Rightarrow> ChatCompletionMessage" where
  "example_request_for calls = \<lparr>role = Assistant, content = Null_content, tool_calls = Some calls, tool_call_id = None\<rparr>"

text \<open>
  A tools directory with one file, which exports the function \<open>foo\<close> and a definition
  whose name is \<open>toString\<close>.
\<close>

definition example_source :: "string \<Rightarrow> fs_node" where
  "example_source p =
     (if p = ''./tools''
      then Directory
        [\<lparr>file_name = ''tools.js'', is_file = Some True,
          exports = Some
            [(''foo'', Function_export (\<lambda>args. Returns (JStr ''ok''))),
             (''fooTool'', Value_export
                (JObj [(''type'', JStr ''function''),
                       (''function'', JObj [(''name'', JStr ''toString'')])]))]\<rparr>]
      else No_access)"

text \<open>
  A provider that always answers \<open>hello\<close>, one that always throws, a store whose client
  is closed, the options of a plain turn, and an agent with a template of two messages
  and the default instruction \<open>D\<close>.
\<close>

definition example_provider :: provider where
  "example_provider r =
     Inr \<lparr>choices = [Some example_hello],
          usage = Some \<lparr>prompt_tokens = 7, completion_tokens = 2, total_tokens = 9\<rparr>\<rparr>"

definition example_failing_provider :: provider where
  "example_failing_provider r = Inl (Err Error ''boom'')"

definition example_closed :: AgentStorage where
  "example_closed = \<lparr>redisClient = Some (example_client\<lparr>commands_left := Some 0\<rparr>)\<rparr>"

definition example_options :: CreateChatCompletionOptions where
  "example_options =
     \<lparr>message = ''2+2?'', call_instruction = None, tool_choices = None, custom_params = None, history = None\<rparr>"

definition example_templated :: world where
  "example_templated =
     example_world\<lparr>heap := (\<lambda>a. [])(0 := [system_message ''T'', example_hi]), next_free := 1,
       defaultHistoryMessages := Some 0, system_instruction := Some ''D''\<rparr>"


section \<open>Theorems\<close>


subsection \<open>The history store\<close>

lemma lrange_of_take: "0 < k \<Longrightarrow> lrange_of l 0 (k - 1) = take (nat k) l"
  by (auto simp: lrange_of_def Let_def take_all)

lemma lrange_of_all: "lrange_of l 0 (- 1) = l"
  by (auto simp: lrange_of_def Let_def)

lemma sendCommand_up: "commands_left c \<noteq> Some 0 \<Longrightarrow> sendCommand c = Inr (served c)"
  by (cases "commands_left c") (auto simp: sendCommand_def served_def split: nat.splits)

lemma sendCommand_down: "commands_left c = Some 0 \<Longrightarrow> sendCommand c = Inl (Err ClientClosedError ''The client is closed'')"
  by (simp add: sendCommand_def)

lemma served_simps [simp]:
  "lists (served c) = lists c"
  "stored_list (served c) key = stored_list c key"
  "commands_left c = None \<Longrightarrow> commands_left (served c) = None"
  by (simp_all add: served_def stored_list_def)

lemma lRange_up:
  "commands_left c \<noteq> Some 0 \<Longrightarrow>
   lRange c key start stop = (Inr (lrange_of (stored_list c key) start stop), served c)"
  by (simp add: lRange_def sendCommand_up)

lemma getStoredMessages_up:
  assumes "redisClient st = Some c" and "commands_left c \<noteq> Some 0"
    and "limit \<noteq> Some 0"
  shows "getStoredMessages st uid (Some \<lparr>appended_messages = limit, remove_tool_messages = r\<rparr>) =
           (Inr ((if r = Some True then filter clean_message else (\<lambda>ms. ms))
                  (rev (lrange_of (stored_list c (''user:'' @ uid)) 0
                          (case limit of None \<Rightarrow> - 1 | Some k \<Rightarrow> k - 1)))),
            st\<lparr>redisClient := Some (served c)\<rparr>)"
  using assms by (cases limit) (simp_all add: getStoredMessages_def Let_def lRange_up)

lemma getStoredMessages_all:
  "redisClient st = Some c \<Longrightarrow> commands_left c \<noteq> Some 0 \<Longrightarrow>
   getStoredMessages st uid None =
     (Inr (rev (stored_list c (''user:'' @ uid))), st\<lparr>redisClient := Some (served c)\<rparr>)"
  by (simp add: getStoredMessages_def Let_def lRange_up lrange_of_all)

text \<open>
  C3. For the log a user has in the store (most recent entry first), a read with limit
  \<open>0\<close> gives the empty sequence; while the store serves the command, a read with limit
  \<open>k > 0\<close> gives the \<open>k\<close> most recent messages (all of them when the log holds fewer), which
  are the last \<open>k\<close> of the log in chronological order, and a read with no limit gives the
  whole log in chronological order. The range fetched is reversed once.
\<close>

theorem getStoredMessages_limits:
  assumes "redisClient st = Some c" and "log = user_log st (''user:'' @ uid)"
  shows "fst (getStoredMessages st uid (Some \<lparr>appended_messages = Some 0, remove_tool_messages = r\<rparr>)) = Inr []
    \<and> (commands_left c \<noteq> Some 0 \<and> r \<noteq> Some True \<longrightarrow>
         (\<forall>k. 0 < k \<longrightarrow>
            fst (getStoredMessages st uid (Some \<lparr>appended_messages = Some k, remove_tool_messages = r\<rparr>))
              = Inr (rev (take (nat k) log))
            \<and> rev (take (nat k) log) = drop (length log - nat k) (rev log))
         \<and> fst (getStoredMessages st uid (Some \<lparr>appended_messages = None, remove_tool_messages = r\<rparr>))
              = Inr (rev log)
         \<and> fst (getStoredMessages st uid None) = Inr (rev log))"
proof -
  have zero: "fst (getStoredMessages st uid (Some \<lparr>appended_messages = Some 0, remove_tool_messages = r\<rparr>)) = Inr []"
    using assms(1) by (simp add: getStoredMessages_def)
  have log: "log = stored_list c (''user:'' @ uid)"
    using assms by (simp add: user_log_def)
  {
    assume up: "commands_left c \<noteq> Some 0" and r: "r \<noteq> Some True"
    have a: "fst (getStoredMessages st uid (Some \<lparr>appended_messages = Some k, remove_tool_messages = r\<rparr>))
              = Inr (rev (take (nat k) log))" if "0 < k" for k
      using getStoredMessages_up[OF assms(1) up, of "Some k" uid r] that r
      by (simp add: lrange_of_take log)
    have b: "fst (getStoredMessages st uid (Some \<lparr>appended_messages = None, remove_tool_messages = r\<rparr>))
              = Inr (rev log)"
      using getStoredMessages_up[OF assms(1) up, of None uid r] r
      by (simp add: lrange_of_all log)
    have c: "fst (getStoredMessages st uid None) = Inr (rev log)"
      using assms(1) up by (simp add: getStoredMessages_all log)
    note a b c
  }
  then show ?thesis using zero by (simp add: rev_take)
qed

theorem getStoredMessages_limits_witness:
  "redisClient example_storage = Some example_client
   \<and> fst (getStoredMessages example_storage ''u1'' (Some \<lparr>appended_messages = Some 0, remove_tool_messages = None\<rparr>))
       = Inr []
   \<and> fst (getStoredMessages example_storage ''u1'' (Some \<lparr>appended_messages = Some 2, remove_tool_messages = None\<rparr>))
       = Inr [example_hello, example_bye]
   \<and> fst (getStoredMessages example_storage ''u1'' (Some \<lparr>appended_messages = None, remove_tool_messages = None\<rparr>))
       = Inr [example_hi, example_hello, example_bye]"
proof -
  have c: "redisClient example_storage = Some example_client"
    by (simp add: example_storage_def)
  have l: "user_log example_storage (''user:'' @ ''u1'') = [example_bye, example_hello, example_hi]"
    by (simp add: user_log_def example_storage_def example_client_def stored_list_def)
  have up: "commands_left example_client \<noteq> Some 0"
    by (simp add: example_client_def)
  show ?thesis
    using getStoredMessages_limits[OF c l[symmetric], of None] up c by simp
qed

lemma lPush_each_up:
  "commands_left c = None \<Longrightarrow>
   lPush_each c key ms =
     (Inr (), if ms = [] then c else c\<lparr>lists := (lists c)(key \<mapsto> rev ms @ stored_list c key)\<rparr>)"
proof (induction ms arbitrary: c)
  case Nil
  then show ?case by simp
next
  case (Cons m ms)
  then show ?case
    by (simp add: lPush_def sendCommand_def stored_list_def Let_def)
qed

lemma saveChatHistory_up:
  assumes "redisClient st = Some c" and "commands_left c = None"
    and "key = ''user:'' @ (case userId of None \<Rightarrow> ''default'' | Some u \<Rightarrow> if u = [] then ''default'' else u)"
    and "kept = (case messages of [] \<Rightarrow> [] | m # ms \<Rightarrow> if role m = System then ms else messages)"
  shows "fst (saveChatHistory st userId messages) = Inr (rev (user_log st key) @ kept)"
    and "user_log (snd (saveChatHistory st userId messages)) key = rev kept @ user_log st key"
    and "key' \<noteq> key \<Longrightarrow> user_log (snd (saveChatHistory st userId messages)) key' = user_log st key'"
proof -
  define c' where "c' = (if kept = [] then c else c\<lparr>lists := (lists c)(key \<mapsto> rev kept @ stored_list c key)\<rparr>)"
  have pushed: "lPush_each c key kept = (Inr (), c')"
    using lPush_each_up[OF assms(2)] by (simp add: c'_def)
  have up: "commands_left c' \<noteq> Some 0"
    using assms(2) by (simp add: c'_def)
  have l: "stored_list c' key = rev kept @ stored_list c key"
    by (simp add: c'_def stored_list_def)
  have l': "stored_list c' k = stored_list c k" if "k \<noteq> key" for k
    using that by (simp add: c'_def stored_list_def)
  define ident where "ident = (case userId of None \<Rightarrow> ''default'' | Some u \<Rightarrow> if u = [] then ''default'' else u)"
  have key: "CHR ''u'' # CHR ''s'' # CHR ''e'' # CHR ''r'' # CHR '':'' # ident = key"
    by (simp add: assms(3) ident_def)
  have get: "getStoredMessages (st\<lparr>redisClient := Some c'\<rparr>) ident None =
      (Inr (rev (stored_list c' key)), st\<lparr>redisClient := Some (served c')\<rparr>)"
    using up by (simp add: getStoredMessages_all key)
  have save: "saveChatHistory st userId messages =
      (Inr (rev (stored_list c' key)), st\<lparr>redisClient := Some (served c')\<rparr>)"
    unfolding saveChatHistory_def Let_def ident_def[symmetric] assms(4)[symmetric]
    using assms(1) pushed get by (simp add: key)
  show "fst (saveChatHistory st userId messages) = Inr (rev (user_log st key) @ kept)"
    using assms(1) by (simp add: save l user_log_def)
  show "user_log (snd (saveChatHistory st userId messages)) key = rev kept @ user_log st key"
    using assms(1) by (simp add: save l user_log_def)
  show "user_log (snd (saveChatHistory st userId messages)) key' = user_log st key'" if "key' \<noteq> key"
    using assms(1) that by (simp add: save l' user_log_def)
qed

text \<open>
  C4. While the store serves its commands, \<^verbatim>\<open>saveChatHistory\<close> drops a leading
  system-role message and pushes the remaining messages, in their order, onto the log
  under the key \<open>user:<id>\<close>, where the id is the user id, or \<open>default\<close> for an absent or
  empty one: the log read in chronological order is the old log followed by the
  remaining messages, which is also what the call returns, and no other key changes.
  For \<open>[s, m1, m2]\<close> with a system message \<open>s\<close> only \<open>[m1, m2]\<close> is persisted.
\<close>

theorem saveChatHistory_drops_leading_system:
  assumes "redisClient st = Some c" and "commands_left c = None"
    and "key = ''user:'' @ (case userId of None \<Rightarrow> ''default'' | Some u \<Rightarrow> if u = [] then ''default'' else u)"
  shows "(role s = System \<longrightarrow>
            fst (saveChatHistory st userId (s # ms)) = Inr (rev (user_log st key) @ ms)
            \<and> rev (user_log (snd (saveChatHistory st userId (s # ms))) key) = rev (user_log st key) @ ms)
       \<and> (messages = [] \<or> role (hd messages) \<noteq> System \<longrightarrow>
            fst (saveChatHistory st userId messages) = Inr (rev (user_log st key) @ messages)
            \<and> rev (user_log (snd (saveChatHistory st userId messages)) key) = rev (user_log st key) @ messages)
       \<and> (\<forall>key'. key' \<noteq> key \<longrightarrow> user_log (snd (saveChatHistory st userId messages)) key' = user_log st key')"
proof -
  have a: "fst (saveChatHistory st userId (s # ms)) = Inr (rev (user_log st key) @ ms)
      \<and> rev (user_log (snd (saveChatHistory st userId (s # ms))) key) = rev (user_log st key) @ ms"
    if "role s = System"
    using saveChatHistory_up(1,2)[OF assms, of ms "s # ms"] that by simp
  have b: "fst (saveChatHistory st userId messages) = Inr (rev (user_log st key) @ messages)
      \<and> rev (user_log (snd (saveChatHistory st userId messages)) key) = rev (user_log st key) @ messages"
    if "messages = [] \<or> role (hd messages) \<noteq> System"
    using saveChatHistory_up(1,2)[OF assms, of messages messages] that
    by (cases messages) auto
  have c: "user_log (snd (saveChatHistory st userId messages)) key' = user_log st key'" if "key' \<noteq> key" for key'
    using saveChatHistory_up(3)[OF assms refl that] .
  show ?thesis using a b c by blast
qed

theorem saveChatHistory_drops_leading_system_witness:
  "redisClient example_storage = Some example_client \<and> commands_left example_client = None
   \<and> role (system_message ''be brief'') = System
   \<and> rev (user_log (snd (saveChatHistory example_storage (Some ''u1'')
                           [system_message ''be brief'', example_hi, example_hello])) ''user:u1'')
       = [example_hi, example_hello, example_bye, example_hi, example_hello]
   \<and> user_log (snd (saveChatHistory example_storage (Some ''u1'')
                      [system_message ''be brief'', example_hi, example_hello])) ''user:u2'' = []"
proof -
  have c: "redisClient example_storage = Some example_client"
    by (simp add: example_storage_def)
  have up: "commands_left example_client = None"
    by (simp add: example_client_def)
  have l: "user_log example_storage ''user:u1'' = [example_bye, example_hello, example_hi]"
       "user_log example_storage ''user:u2'' = []"
    by (simp_all add: user_log_def example_storage_def example_client_def stored_list_def)
  have s: "role (system_message ''be brief'') = System"
    by (simp add: system_message_def)
  show ?thesis
    using saveChatHistory_drops_leading_system[OF c up, of "''user:u1''" "Some ''u1''"
        "system_message ''be brief''" "[example_hi, example_hello]"
        "[system_message ''be brief'', example_hi, example_hello]"]
      c up l s
    by simp
qed

lemma del_up:
  "commands_left c \<noteq> Some 0 \<Longrightarrow>
   del c key = (Inr (if lists c key = None then 0 else 1), (served c)\<lparr>lists := (lists c)(key := None)\<rparr>)"
  by (simp add: del_def sendCommand_up)

lemma deleteHistory_up:
  "redisClient st = Some c \<Longrightarrow> commands_left c \<noteq> Some 0 \<Longrightarrow>
   deleteHistory st userId =
     (Inr (if lists c (''user:'' @ userId) = None then 0 else 1),
      st\<lparr>redisClient := Some ((served c)\<lparr>lists := (lists c)((''user:'' @ userId) := None)\<rparr>)\<rparr>)"
  by (simp add: deleteHistory_def del_up)

lemma deleteChatHistory_up:
  "Storage w = Some st \<Longrightarrow> redisClient st = Some c \<Longrightarrow> commands_left c \<noteq> Some 0 \<Longrightarrow>
   deleteChatHistory w userId =
     (Inr True,
      w\<lparr>Storage := Some (st\<lparr>redisClient :=
           Some ((served c)\<lparr>lists := (lists c)((''user:'' @ userId) := None)\<rparr>)\<rparr>)\<rparr>)"
  by (simp add: deleteChatHistory_def deleteHistory_up)

text \<open>
  C7, as the code has it. \<^verbatim>\<open>deleteChatHistory\<close> answers \<open>true\<close>, not a count, whenever a
  store is configured and serves the command; \<^verbatim>\<open>deleteHistory\<close> of the storage class
  answers the reply of DEL, the number of keys removed: \<open>1\<close> when the user has a log,
  whatever its length, \<open>0\<close> when the user has none. After a purge the user has no log, and
  a second purge succeeds again, with \<open>0\<close> from \<^verbatim>\<open>deleteHistory\<close> and \<open>true\<close> from
  \<^verbatim>\<open>deleteChatHistory\<close>. With no store configured \<^verbatim>\<open>deleteChatHistory\<close> fails with a
  validation error.
\<close>

theorem deleteChatHistory_true_and_idempotent:
  "(Storage w = None \<longrightarrow>
      fst (deleteChatHistory w userId) = Inl (Err ValidationError ''Agent storage is not initalized.''))
   \<and> (Storage w = Some st \<and> redisClient st = Some c \<and> commands_left c = None \<longrightarrow>
        fst (deleteChatHistory w userId) = Inr True
        \<and> fst (deleteHistory st userId) = Inr (if lists c (''user:'' @ userId) = None then 0 else 1)
        \<and> user_log (the (Storage (snd (deleteChatHistory w userId)))) (''user:'' @ userId) = []
        \<and> fst (deleteChatHistory (snd (deleteChatHistory w userId)) userId) = Inr True
        \<and> fst (deleteHistory (snd (deleteHistory st userId)) userId) = Inr 0)"
proof -
  have none: "fst (deleteChatHistory w userId) = Inl (Err ValidationError ''Agent storage is not initalized.'')"
    if "Storage w = None"
    using that by (simp add: deleteChatHistory_def)
  {
    assume st: "Storage w = Some st" and c: "redisClient st = Some c" and up: "commands_left c = None"
    define c1 where "c1 = (served c)\<lparr>lists := (lists c)((''user:'' @ userId) := None)\<rparr>"
    have up0: "commands_left c \<noteq> Some 0" using up by simp
    have up1: "commands_left c1 \<noteq> Some 0" using up by (simp add: c1_def)
    have first: "deleteChatHistory w userId = (Inr True, w\<lparr>Storage := Some (st\<lparr>redisClient := Some c1\<rparr>)\<rparr>)"
      using deleteChatHistory_up[OF st c up0] by (simp add: c1_def)
    have first': "deleteHistory st userId =
        (Inr (if lists c (''user:'' @ userId) = None then 0 else 1), st\<lparr>redisClient := Some c1\<rparr>)"
      using deleteHistory_up[OF c up0] by (simp add: c1_def)
    have gone: "lists c1 (''user:'' @ userId) = None"
      by (simp add: c1_def)
    have second: "fst (deleteChatHistory (w\<lparr>Storage := Some (st\<lparr>redisClient := Some c1\<rparr>)\<rparr>) userId) = Inr True"
      using deleteChatHistory_up[of "w\<lparr>Storage := Some (st\<lparr>redisClient := Some c1\<rparr>)\<rparr>"
          "st\<lparr>redisClient := Some c1\<rparr>" c1 userId] up1
      by simp
    have second': "fst (deleteHistory (st\<lparr>redisClient := Some c1\<rparr>) userId) = Inr 0"
      using deleteHistory_up[of "st\<lparr>redisClient := Some c1\<rparr>" c1 userId] up1 gone
      by simp
    have "fst (deleteChatHistory w userId) = Inr True
        \<and> fst (deleteHistory st userId) = Inr (if lists c (''user:'' @ userId) = None then 0 else 1)
        \<and> user_log (the (Storage (snd (deleteChatHistory w userId)))) (''user:'' @ userId) = []
        \<and> fst (deleteChatHistory (snd (deleteChatHistory w userId)) userId) = Inr True
        \<and> fst (deleteHistory (snd (deleteHistory st userId)) userId) = Inr 0"
      using second second' gone
      by (simp add: first first' user_log_def stored_list_def del: fun_upd_apply)
  }
  then show ?thesis using none by blast
qed

theorem deleteChatHistory_true_and_idempotent_witness:
  "length (user_log example_five ''user:u1'') = 5
   \<and> fst (deleteChatHistory (example_world\<lparr>Storage := Some example_five\<rparr>) ''u1'') = Inr True
   \<and> fst (deleteHistory example_five ''u1'') = Inr 1
   \<and> fst (deleteChatHistory (snd (deleteChatHistory (example_world\<lparr>Storage := Some example_five\<rparr>) ''u1'')) ''u1'')
       = Inr True
   \<and> fst (deleteHistory (snd (deleteHistory example_five ''u1'')) ''u1'') = Inr 0
   \<and> fst (deleteChatHistory example_world ''u1'') = Inl (Err ValidationError ''Agent storage is not initalized.'')"
  using deleteChatHistory_true_and_idempotent[of "example_world\<lparr>Storage := Some example_five\<rparr>" "''u1''"
      example_five "the (redisClient example_five)"]
    deleteChatHistory_true_and_idempotent[of example_world "''u1''"]
  by (simp add: example_five_def example_world_def user_log_def stored_list_def)

text \<open>
  C7 as stated fails: on a log of five messages the storage class answers \<open>1\<close>, the number
  of keys removed, and the agent's method answers \<open>true\<close>; neither answers \<open>5\<close>.
\<close>

theorem purge_count_counterexample:
  "length (user_log example_five ''user:u1'') = 5
   \<and> fst (deleteHistory example_five ''u1'') = Inr 1
   \<and> fst (deleteHistory example_five ''u1'') \<noteq> Inr 5
   \<and> fst (deleteChatHistory (example_world\<lparr>Storage := Some example_five\<rparr>) ''u1'') = Inr True"
  by (simp add: example_five_def example_world_def user_log_def stored_list_def
        deleteChatHistory_def deleteHistory_def del_def sendCommand_def)

subsection \<open>Resolving the requested tools\<close>

lemma find_by_name:
  "find (\<lambda>t. function_name t = n) defs = Some t \<Longrightarrow> function_name t = n \<and> t \<in> set defs"
  by (auto simp: find_Some_iff)

lemma find_by_name_None:
  "find (\<lambda>t. function_name t = n) defs = None \<longleftrightarrow> n \<notin> function_name ` set defs"
  by (auto simp: find_None_iff)

lemma set_map_filter:
  "set (List.map_filter f xs) = {y. \<exists>x \<in> set xs. f x = Some y}"
  by (force simp: List.map_filter_def image_iff)

lemma chosen_has_name:
  assumes "n \<in> set toolNames"
  shows "list_ex (\<lambda>t. function_name t = n)
           (List.map_filter (\<lambda>toolName. find (\<lambda>t. function_name t = toolName) defs) toolNames)
         \<longleftrightarrow> n \<in> function_name ` set defs"
proof
  assume "list_ex (\<lambda>t. function_name t = n)
           (List.map_filter (\<lambda>toolName. find (\<lambda>t. function_name t = toolName) defs) toolNames)"
  then obtain t m where "find (\<lambda>t. function_name t = m) defs = Some t" "function_name t = n"
    by (auto simp: list_ex_iff set_map_filter)
  then show "n \<in> function_name ` set defs"
    using find_by_name by force
next
  assume "n \<in> function_name ` set defs"
  then obtain t where t: "find (\<lambda>t. function_name t = n) defs = Some t"
    using find_by_name_None[of n defs] by (cases "find (\<lambda>t. function_name t = n) defs") auto
  then have "function_name t = n" using find_by_name by blast
  then show "list_ex (\<lambda>t. function_name t = n)
           (List.map_filter (\<lambda>toolName. find (\<lambda>t. function_name t = toolName) defs) toolNames)"
    using assms t by (force simp: list_ex_iff set_map_filter)
qed

lemma missing_filter:
  "filter (\<lambda>n. \<not> list_ex (\<lambda>t. function_name t = n)
              (List.map_filter (\<lambda>toolName. find (\<lambda>t. function_name t = toolName) defs) toolNames)) toolNames
   = filter (\<lambda>n. n \<notin> function_name ` set defs) toolNames"
  by (rule filter_cong) (simp_all add: chosen_has_name)

lemma chosen_all_found:
  "\<forall>n \<in> set toolNames. n \<in> function_name ` set defs \<Longrightarrow>
   List.map_filter (\<lambda>toolName. find (\<lambda>t. function_name t = toolName) defs) toolNames
   = map (\<lambda>toolName. the (find (\<lambda>t. function_name t = toolName) defs)) toolNames"
proof (induction toolNames)
  case Nil
  then show ?case by (simp add: List.map_filter_simps)
next
  case (Cons n ns)
  then obtain t where "find (\<lambda>t. function_name t = n) defs = Some t"
    using find_by_name_None[of n defs] by (cases "find (\<lambda>t. function_name t = n) defs") auto
  then show ?case using Cons by (simp add: List.map_filter_simps)
qed

lemma import_attempt_registered:
  assumes "toolsDirPath w = Some path" and "path \<noteq> []" and "ToolsRegistry_instance w = Some registered"
    and "missing = filter (\<lambda>n. n \<notin> function_name ` set (toolDefinitions registered)) toolNames"
  shows "import_attempt fs w toolNames =
     (if missing \<noteq> []
      then (Inl (Err ToolNotFoundError
              (''Tool not found: '' @ ''The following tools were not found: '' @ join missing '', '')), w)
      else (Inr \<lparr>importedFunctions = toolFunctions registered,
                 toolChoices = List.map_filter
                   (\<lambda>toolName. find (\<lambda>t. function_name t = toolName) (toolDefinitions registered)) toolNames\<rparr>, w))"
  using assms(1-3) unfolding import_attempt_def Let_def missing_filter
  by (simp add: assms(4))

text \<open>
  C6. With the directory path recorded and a snapshot active, \<^verbatim>\<open>importToolFunctions\<close>
  looks every requested name up. When some are missing from the snapshot it fails with one
  \<^verbatim>\<open>ToolNotFoundError\<close> whose message lists every missing name, in the order requested;
  otherwise it returns, for each requested name in order, the definition of that name,
  together with the whole implementation map of the snapshot. The registry is unchanged.
\<close>

theorem importToolFunctions_lists_all_missing:
  assumes "toolsDirPath w = Some path" and "path \<noteq> []" and "ToolsRegistry_instance w = Some registered"
    and "missing = filter (\<lambda>n. n \<notin> function_name ` set (toolDefinitions registered)) toolNames"
    and "chosen = map (\<lambda>n. the (find (\<lambda>t. function_name t = n) (toolDefinitions registered))) toolNames"
  shows "(missing \<noteq> [] \<longrightarrow>
            importToolFunctions fs w toolNames =
              (Inl (Err ToolNotFoundError
                 (''Tool not found: The following tools were not found: '' @ join missing '', '')), w))
       \<and> (missing = [] \<longrightarrow>
            importToolFunctions fs w toolNames =
              (Inr \<lparr>importedFunctions = toolFunctions registered, toolChoices = chosen\<rparr>, w)
            \<and> map function_name chosen = toolNames
            \<and> set chosen \<subseteq> set (toolDefinitions registered))"
proof -
  note attempt = import_attempt_registered[OF assms(1-4), of fs]
  have a: "importToolFunctions fs w toolNames =
              (Inl (Err ToolNotFoundError
                 (''Tool not found: The following tools were not found: '' @ join missing '', '')), w)"
    if "missing \<noteq> []"
    using that by (simp add: importToolFunctions_def attempt)
  {
    assume none: "missing = []"
    then have all: "\<forall>n \<in> set toolNames. n \<in> function_name ` set (toolDefinitions registered)"
      using assms(4) by (auto simp: filter_empty_conv)
    have found: "\<exists>t. find (\<lambda>t. function_name t = n) (toolDefinitions registered) = Some t"
      if "n \<in> set toolNames" for n
      using all that find_by_name_None[of n "toolDefinitions registered"]
      by (cases "find (\<lambda>t. function_name t = n) (toolDefinitions registered)") auto
    have names: "map function_name chosen = toolNames"
      unfolding assms(5) using found find_by_name
      by (induction toolNames) force+
    have sub: "set chosen \<subseteq> set (toolDefinitions registered)"
      unfolding assms(5) using found find_by_name by force
    have "importToolFunctions fs w toolNames =
              (Inr \<lparr>importedFunctions = toolFunctions registered, toolChoices = chosen\<rparr>, w)"
      using none chosen_all_found[OF all]
      by (simp add: importToolFunctions_def attempt assms(5))
    note this names sub
  }
  then show ?thesis using a by blast
qed

theorem importToolFunctions_lists_all_missing_witness:
  "toolsDirPath example_tooled = Some ''./tools'' \<and> ToolsRegistry_instance example_tooled = Some example_tools
   \<and> fst (importToolFunctions (\<lambda>p. No_access) example_tooled [''get_weather'', ''nope'', ''get_time'', ''nada''])
       = Inl (Err ToolNotFoundError ''Tool not found: The following tools were not found: nope, nada'')
   \<and> map_sum id toolChoices (fst (importToolFunctions (\<lambda>p. No_access) example_tooled [''get_time'', ''get_weather'']))
       = Inr [example_time, example_weather]"
proof -
  have p: "toolsDirPath example_tooled = Some ''./tools''" and q: "''./tools'' \<noteq> []"
    and r: "ToolsRegistry_instance example_tooled = Some example_tools"
    by (simp_all add: example_tooled_def)
  have n: "function_name ` set (toolDefinitions example_tools) = {''get_weather'', ''get_time''}"
    by (simp add: example_tools_def example_weather_def example_time_def)
  have m1: "[''nope'', ''nada''] = filter (\<lambda>n. n \<notin> function_name ` set (toolDefinitions example_tools))
         [''get_weather'', ''nope'', ''get_time'', ''nada'']"
    and m2: "[] = filter (\<lambda>n. n \<notin> function_name ` set (toolDefinitions example_tools))
         [''get_time'', ''get_weather'']"
    unfolding n by simp_all
  have c: "[example_time, example_weather] =
      map (\<lambda>n. the (find (\<lambda>t. function_name t = n) (toolDefinitions example_tools))) [''get_time'', ''get_weather'']"
    by (simp add: example_tools_def example_weather_def example_time_def)
  show ?thesis
    using importToolFunctions_lists_all_missing[OF p q r m1 refl, of "\<lambda>p. No_access"]
      importToolFunctions_lists_all_missing[OF p q r m2 c, of "\<lambda>p. No_access"] p r
    by simp
qed

subsection \<open>The tool dispatcher\<close>

text \<open>
  What holds of the dispatcher: it throws only for a message with no tool call, and
  otherwise answers one tool-role message per call, in the order of the calls, each with
  the id of its call. A call whose name is neither an own property of the implementation
  map nor a key of \<^verbatim>\<open>Object.prototype\<close>, a call of a found function with arguments that
  do not parse, and a call whose implementation returns \<^verbatim>\<open>undefined\<close> or throws each
  give the message \<^verbatim>\<open>{error: ...}\<close>.
\<close>

lemma callChosenFunctions_one_per_call:
  "callChosenFunctions responseMessage functions =
     (if tool_calls responseMessage = None \<or> tool_calls responseMessage = Some []
      then Inl (Err Error ''No tool calls found in the response message'')
      else Inr (map (tool_message functions) (the (tool_calls responseMessage))))"
  by (auto simp: callChosenFunctions_def split: option.splits list.splits)

lemma tool_message_shape:
  "role (tool_message functions tool) = Tool \<and> tool_call_id (tool_message functions tool) = Some (call_id tool)"
  by (simp add: tool_message_def split: sum.splits)

lemma tool_message_unknown:
  "map_of functions (call_name tool) = None \<Longrightarrow> call_name tool \<notin> set Object_prototype_keys \<Longrightarrow>
   content (tool_message functions tool) =
     Stringified (JObj [(''error'', JStr (''Function '' @ quoted (call_name tool) @ '' not found''))])"
  by (simp add: tool_message_def call_attempt_def get_property_def)

lemma tool_message_malformed:
  "get_property functions (call_name tool) \<noteq> None \<Longrightarrow> call_arguments tool = Malformed args \<Longrightarrow>
   content (tool_message functions tool) =
     Stringified (JObj [(''error'', JStr (''Invalid arguments format for function '' @ quoted (call_name tool)
                                            @ '': '' @ args))])"
  by (auto simp add: tool_message_def call_attempt_def)

lemma tool_message_undefined:
  "map_of functions (call_name tool) = Some f \<Longrightarrow> call_arguments tool = Well_formed v \<Longrightarrow> f v = Returns_undefined \<Longrightarrow>
   content (tool_message functions tool) =
     Stringified (JObj [(''error'', JStr (''Function '' @ quoted (call_name tool) @ '' returned no response''))])"
  by (simp add: tool_message_def call_attempt_def get_property_def)

lemma tool_message_returns:
  "map_of functions (call_name tool) = Some f \<Longrightarrow> call_arguments tool = Well_formed v \<Longrightarrow> f v = Returns r \<Longrightarrow>
   content (tool_message functions tool) = Stringified r"
  by (simp add: tool_message_def call_attempt_def get_property_def)

lemma tool_message_throws:
  "map_of functions (call_name tool) = Some f \<Longrightarrow> call_arguments tool = Well_formed v \<Longrightarrow> f v = Throws e \<Longrightarrow>
   content (tool_message functions tool) = Stringified (JObj [(''error'', JStr (errorMessage e))])"
  by (simp add: tool_message_def call_attempt_def get_property_def)

lemma callChosenFunctions_order:
  "callChosenFunctions responseMessage functions = Inr toolMessages \<Longrightarrow>
   tool_calls responseMessage = Some calls \<Longrightarrow>
   length toolMessages = length calls
   \<and> map tool_call_id toolMessages = map (\<lambda>c. Some (call_id c)) calls
   \<and> (\<forall>m \<in> set toolMessages. role m = Tool)"
  by (auto simp: callChosenFunctions_one_per_call tool_message_shape split: if_splits)

text \<open>
  C1 at a name that the implementation map does not hold but \<^verbatim>\<open>Object.prototype\<close> does:
  \<^verbatim>\<open>functions['toString']\<close> is the inherited method, the check \<^verbatim>\<open>!currentFunction\<close>
  passes, the method is called and its answer is serialised as a result. The call of the
  unknown name \<open>toString\<close> gets no error payload; the call of the unknown name
  \<open>to_string\<close> gets one.
\<close>

theorem dispatch_inherited_name:
  "map_of (toolFunctions example_tools) ''toString'' = None
   \<and> callChosenFunctions (example_request_for [example_call ''call_1'' ''toString'' (Well_formed (JObj []))])
       (toolFunctions example_tools)
     = Inr [\<lparr>role = Tool, content = Stringified (JStr ''[object Undefined]''), tool_calls = None,
             tool_call_id = Some ''call_1''\<rparr>]
   \<and> callChosenFunctions (example_request_for [example_call ''call_2'' ''to_string'' (Well_formed (JObj []))])
       (toolFunctions example_tools)
     = Inr [\<lparr>role = Tool,
             content = Stringified (JObj [(''error'', JStr (''Function '' @ quoted ''to_string'' @ '' not found''))]),
             tool_calls = None, tool_call_id = Some ''call_2''\<rparr>]"
  by (simp add: callChosenFunctions_def example_request_for_def example_call_def tool_message_def
        call_attempt_def get_property_def Object_prototype_keys_def Object_prototype_call_def
        example_tools_def)

subsection \<open>Loading the tools directory\<close>

text \<open>
  What holds of the load: a definition count that differs from the implementation count
  fails it, and so does a definition whose name is neither an own property of the
  implementation map nor a key of \<^verbatim>\<open>Object.prototype\<close>; a failed load leaves the state,
  the published snapshot included, as it was; a successful load publishes the snapshot it
  has validated.
\<close>

lemma validateToolConfiguration_count:
  "length fnDefinitions \<noteq> length (Object_keys functions) \<Longrightarrow>
   validateToolConfiguration fnDefinitions functions =
     Inl (Err ValidationError
            (''Mismatch between number of function definitions ('' @ decimal (length fnDefinitions)
             @ '') and implementations ('' @ decimal (length (Object_keys functions)) @ '')''))"
  by (simp add: validateToolConfiguration_def Let_def del: decimal.simps)

lemma validateToolConfiguration_missing:
  assumes "d \<in> set fnDefinitions" and "map_of functions (function_name d) = None"
    and "function_name d \<notin> set Object_prototype_keys"
  shows "\<exists>e. validateToolConfiguration fnDefinitions functions = Inl e"
proof (cases "length fnDefinitions = length (Object_keys functions)")
  case False
  then show ?thesis by (simp add: validateToolConfiguration_count)
next
  case True
  have "find (\<lambda>d. get_property functions (function_name d) = None) fnDefinitions \<noteq> None"
    using assms by (auto simp: find_None_iff get_property_def)
  then show ?thesis using True
    by (auto simp: validateToolConfiguration_def Let_def)
qed

lemma loadToolsDirFiles_failure_keeps_world:
  "fst (loadToolsDirFiles fs w dirPath) = Inl e \<Longrightarrow> snd (loadToolsDirFiles fs w dirPath) = w"
  by (auto simp: loadToolsDirFiles_def split: sum.splits if_splits)

lemma loadToolsDirFiles_publishes_validated:
  "fst (loadToolsDirFiles fs w dirPath) = Inr loaded \<Longrightarrow>
   snd (loadToolsDirFiles fs w dirPath) = w\<lparr>ToolsRegistry_instance := Some loaded\<rparr>
   \<and> validateToolConfiguration (toolDefinitions loaded) (toolFunctions loaded) = Inr ()"
  by (auto simp: loadToolsDirFiles_def load_attempt_def split: sum.splits if_splits fs_node.splits)

lemma loadToolsDirFiles_rejects_invalid:
  assumes "fs dirPath = Directory files"
    and "process_files dirPath files \<lparr>toolDefinitions = [], toolFunctions = []\<rparr> = Inr loaded"
    and "validateToolConfiguration (toolDefinitions loaded) (toolFunctions loaded) = Inl e"
  shows "\<exists>e'. loadToolsDirFiles fs w dirPath = (Inl e', w)"
  using assms by (simp add: loadToolsDirFiles_def load_attempt_def)



subsection \<open>The orchestrator\<close>

lemma sendCommand_lists: "sendCommand c = Inr c' \<Longrightarrow> lists c' = lists c"
  by (auto simp: sendCommand_def split: option.splits nat.splits)

lemma lRange_lists: "lRange c key a b = (r, c') \<Longrightarrow> lists c' = lists c"
  by (auto simp: lRange_def split: sum.splits dest: sendCommand_lists)

lemma getStoredMessages_frame:
  assumes "getStoredMessages st uid opts = (r, st')"
  shows "user_log st' key = user_log st key" and "redisClient st' = None \<longleftrightarrow> redisClient st = None"
proof -
  have "user_log st' key = user_log st key \<and> (redisClient st' = None \<longleftrightarrow> redisClient st = None)"
  proof (cases "redisClient st")
    case None
    then show ?thesis using assms by (simp add: getStoredMessages_def)
  next
    case (Some c)
    define limit where "limit = (case opts of None \<Rightarrow> None | Some h \<Rightarrow> appended_messages h)"
    obtain r1 c1 where range: "lRange c (''user:'' @ uid) 0 (if limit \<noteq> None then the limit - 1 else - 1) = (r1, c1)"
      by (cases "lRange c (''user:'' @ uid) 0 (if limit \<noteq> None then the limit - 1 else - 1)")
    have l: "lists c1 = lists c" using lRange_lists[OF range] .
    have "st' = st \<or> st' = st\<lparr>redisClient := Some c1\<rparr>"
      using assms Some range unfolding getStoredMessages_def Let_def limit_def[symmetric]
      by (cases r1; cases "limit \<noteq> None") (auto split: if_splits)
    then show ?thesis using Some l by (auto simp: user_log_def stored_list_def)
  qed
  then show "user_log st' key = user_log st key" and "redisClient st' = None \<longleftrightarrow> redisClient st = None"
    by simp_all
qed

lemma persist_cases:
  assumes "persist w u ms = (r, w')"
  shows "\<exists>S. w' = w\<lparr>Storage := S\<rparr> \<and> (S = None \<longleftrightarrow> Storage w = None)
            \<and> (\<forall>e. r = Inl e \<longrightarrow> S = Storage w \<or> (\<exists>st st'. saveChatHistory st u ms = (Inl e, st')))"
proof (cases "Storage w")
  case None
  then show ?thesis using assms by (auto simp: persist_def)
next
  case (Some st)
  obtain r1 st1 where save: "saveChatHistory st u ms = (r1, st1)"
    by (cases "saveChatHistory st u ms")
  show ?thesis
    using assms Some save by (cases r1) (auto simp: persist_def)
qed

lemma loadToolsDirFiles_shape:
  "loadToolsDirFiles fs w p = (r, w') \<Longrightarrow> \<exists>R. w' = w\<lparr>ToolsRegistry_instance := R\<rparr>"
proof -
  assume "loadToolsDirFiles fs w p = (r, w')"
  then have "w' = w \<or> (\<exists>R. w' = w\<lparr>ToolsRegistry_instance := R\<rparr>)"
    by (auto simp: loadToolsDirFiles_def split: sum.splits if_splits)
  moreover have "w = w\<lparr>ToolsRegistry_instance := ToolsRegistry_instance w\<rparr>" by simp
  ultimately show ?thesis by metis
qed


lemma importToolFunctions_shape:
  assumes "importToolFunctions fs w names = (r, w')"
  shows "\<exists>R. w' = w\<lparr>ToolsRegistry_instance := R\<rparr>"
proof -
  have same: "w = w\<lparr>ToolsRegistry_instance := ToolsRegistry_instance w\<rparr>" by simp
  obtain r1 w1 where load: "loadToolsDirFiles fs w (the (toolsDirPath w)) = (r1, w1)"
    by (cases "loadToolsDirFiles fs w (the (toolsDirPath w))")
  obtain R where R: "w1 = w\<lparr>ToolsRegistry_instance := R\<rparr>"
    using loadToolsDirFiles_shape[OF load] by blast
  have "w' = w \<or> w' = w1"
    using assms load
    by (auto simp: importToolFunctions_def import_attempt_def Let_def
             split: prod.splits sum.splits if_splits option.splits)
  then show ?thesis using R same by metis
qed

lemma resolve_tools_shape:
  assumes "resolve_tools fs w q names = (r, w')"
  shows "\<exists>R. w' = w\<lparr>ToolsRegistry_instance := R\<rparr>"
proof -
  have same: "w = w\<lparr>ToolsRegistry_instance := ToolsRegistry_instance w\<rparr>" by simp
  show ?thesis
  proof (cases "names = None \<or> names = Some []")
    case True
    then have "w' = w" using assms by (auto simp: resolve_tools_def)
    then show ?thesis using same by metis
  next
    case False
    then obtain n ns where names: "names = Some (n # ns)"
      by (cases names) (auto simp: neq_Nil_conv)
    obtain r1 w1 where imp: "importToolFunctions fs w (n # ns) = (r1, w1)"
      by (cases "importToolFunctions fs w (n # ns)")
    have "w' = w1" using assms names imp by (cases r1) (auto simp: resolve_tools_def)
    then show ?thesis using importToolFunctions_shape[OF imp] by simp
  qed
qed

lemma handleToolCompletion_shape:
  assumes "handleToolCompletion provider w response q a newMessages functions = (r, w')"
    and "heap w a \<noteq> []"
  shows "\<exists>extra S. w' = w\<lparr>heap := (heap w)(a := heap w a @ extra), Storage := S\<rparr>
           \<and> (S = None \<longleftrightarrow> Storage w = None)
           \<and> (\<forall>e. r = Inl e \<longrightarrow> S = Storage w \<or> (\<exists>st u ms st'. saveChatHistory st u ms = (Inl e, st')))"
proof -
  have stay: "w = w\<lparr>heap := (heap w)(a := heap w a @ []), Storage := Storage w\<rparr>" by simp
  have grown: "push w a xs = w\<lparr>heap := (heap w)(a := heap w a @ xs), Storage := Storage w\<rparr>" for xs
    by (simp add: push_def)
  have grown2: "push (push w a xs) a ys = w\<lparr>heap := (heap w)(a := heap w a @ xs @ ys), Storage := Storage w\<rparr>" for xs ys
    by (simp add: push_def)
  show ?thesis
  proof (cases "first_message response")
    case (Inl e)
    then have "w' = w" "r = Inl e" using assms by (auto simp: handleToolCompletion_def)
    then show ?thesis using stay by metis
  next
    case (Inr m)
    show ?thesis
    proof (cases m)
      case None
      then have "w' = w" and "\<exists>e. r = Inl e" using assms Inr by (auto simp: handleToolCompletion_def)
      then show ?thesis using stay by metis
    next
      case (Some responseMessage)
      show ?thesis
      proof (cases "callChosenFunctions responseMessage functions")
        case (Inl e)
        then have "w' = push w a [responseMessage]"
          using assms Inr Some by (auto simp: handleToolCompletion_def Let_def)
        then show ?thesis using grown by metis
      next
        case toolMessages: (Inr toolMessages)
        define w2 where "w2 = push (push w a [responseMessage]) a toolMessages"
        have w2: "w2 = w\<lparr>heap := (heap w)(a := heap w a @ [responseMessage] @ toolMessages), Storage := Storage w\<rparr>"
          unfolding w2_def by (rule grown2)
        show ?thesis
        proof (cases "provider \<lparr>request_params = q, request_messages = heap w2 a\<rparr>")
          case (Inl e)
          then have "w' = w2"
            using assms Inr Some toolMessages by (auto simp: handleToolCompletion_def Let_def w2_def)
          then show ?thesis using w2 by metis
        next
          case second: (Inr secondResponse)
          show ?thesis
          proof (cases "first_message secondResponse")
            case (Inl e)
            then have "w' = w2"
              using assms Inr Some toolMessages second by (auto simp: handleToolCompletion_def Let_def w2_def)
            then show ?thesis using w2 by metis
          next
            case m2: (Inr m2)
            show ?thesis
            proof (cases m2)
              case None
              then have "w' = w2"
                using assms Inr Some toolMessages second m2 by (auto simp: handleToolCompletion_def Let_def w2_def)
              then show ?thesis using w2 by metis
            next
              case secondMessage: (Some secondResponseMessage)
              obtain r3 w3 where p: "persist w2 (user q) ((newMessages @ toolMessages) @ [secondResponseMessage]) = (r3, w3)"
                by (cases "persist w2 (user q) ((newMessages @ toolMessages) @ [secondResponseMessage])")
              obtain S where S: "w3 = w2\<lparr>Storage := S\<rparr>" "S = None \<longleftrightarrow> Storage w2 = None"
                "\<forall>e. r3 = Inl e \<longrightarrow> S = Storage w2 \<or>
                   (\<exists>st st'. saveChatHistory st (user q) ((newMessages @ toolMessages) @ [secondResponseMessage]) = (Inl e, st'))"
                using persist_cases[OF p] by auto
              have sw2: "Storage w2 = Storage w" by (simp add: w2)
              have res: "w' = w3 \<and> (\<forall>e. r = Inl e \<longrightarrow> r3 = Inl e)"
                using assms Inr Some toolMessages second m2 secondMessage p
                by (cases r3) (auto simp: handleToolCompletion_def Let_def w2_def)
              have "w' = w\<lparr>heap := (heap w)(a := heap w a @ [responseMessage] @ toolMessages), Storage := S\<rparr>"
                using res S(1) w2 by simp
              moreover have "S = None \<longleftrightarrow> Storage w = None" using S(2) sw2 by simp
              moreover have "\<forall>e. r = Inl e \<longrightarrow> S = Storage w \<or> (\<exists>st u ms st'. saveChatHistory st u ms = (Inl e, st'))"
                using res S(3) sw2 by metis
              ultimately show ?thesis by - (rule exI, rule exI, intro conjI; assumption)
            qed
          qed
        qed
      qed
    qed
  qed
qed


lemma complete_shape:
  assumes "complete provider fs w a q n options = (r, w')" and "heap w a \<noteq> []"
  shows "\<exists>extra S R. w' = w\<lparr>heap := (heap w)(a := heap w a @ extra), Storage := S, ToolsRegistry_instance := R\<rparr>
           \<and> (S = None \<longleftrightarrow> Storage w = None)
           \<and> (\<forall>e. r = Inl e \<longrightarrow> S = Storage w \<or> (\<exists>st u ms st'. saveChatHistory st u ms = (Inl e, st')))"
proof -
  obtain r1 w1 where rt: "resolve_tools fs w q (tool_choices options) = (r1, w1)"
    by (cases "resolve_tools fs w q (tool_choices options)")
  obtain R where R: "w1 = w\<lparr>ToolsRegistry_instance := R\<rparr>"
    using resolve_tools_shape[OF rt] by auto
  have h1: "heap w1 = heap w" and s1: "Storage w1 = Storage w" by (simp_all add: R)
  have stay: "w1 = w\<lparr>heap := (heap w)(a := heap w a @ []), Storage := Storage w, ToolsRegistry_instance := R\<rparr>"
    by (simp add: R)
  have conclude: ?thesis
    if "w' = w1\<lparr>heap := (heap w1)(a := heap w1 a @ extra), Storage := S\<rparr>"
      and "S = None \<longleftrightarrow> Storage w1 = None"
      and "\<forall>e. r = Inl e \<longrightarrow> S = Storage w1 \<or> (\<exists>st u ms st'. saveChatHistory st u ms = (Inl e, st'))"
    for extra S
  proof -
    have "w' = w\<lparr>heap := (heap w)(a := heap w a @ extra), Storage := S, ToolsRegistry_instance := R\<rparr>"
      using that(1) by (simp add: R)
    moreover have "S = None \<longleftrightarrow> Storage w = None" using that(2) s1 by simp
    moreover have "\<forall>e. r = Inl e \<longrightarrow> S = Storage w \<or> (\<exists>st u ms st'. saveChatHistory st u ms = (Inl e, st'))"
      using that(3) s1 by simp
    ultimately show ?thesis by - (rule exI, rule exI, rule exI, intro conjI; assumption)
  qed
  have unchanged: ?thesis if "w' = w1"
  proof -
    have "w' = w1\<lparr>heap := (heap w1)(a := heap w1 a @ []), Storage := Storage w1\<rparr>"
      using that by simp
    then show ?thesis by (rule conclude) simp_all
  qed
  show ?thesis
  proof (cases r1)
    case (Inl e)
    then have "w' = w1" using assms(1) rt by (simp add: complete_def)
    then show ?thesis by (rule unchanged)
  next
    case (Inr pair)
    obtain q1 fns where pair: "pair = (q1, fns)" by (cases pair)
    show ?thesis
    proof (cases "provider \<lparr>request_params = q1, request_messages = heap w1 a\<rparr>")
      case (Inl e)
      then have "w' = w1" using assms(1) rt Inr pair by (simp add: complete_def)
      then show ?thesis by (rule unchanged)
    next
      case response: (Inr response)
      show ?thesis
      proof (cases "first_message response")
        case (Inl e)
        then have "w' = w1" using assms(1) rt Inr pair response by (simp add: complete_def)
        then show ?thesis by (rule unchanged)
      next
        case m: (Inr m)
        show ?thesis
        proof (cases m)
          case None
          then have "w' = w1" using assms(1) rt Inr pair response m by (simp add: complete_def)
          then show ?thesis by (rule unchanged)
        next
          case (Some responseMessage)
          show ?thesis
          proof (cases "tool_calls responseMessage \<noteq> None \<and> fns \<noteq> None")
            case True
            then have "handleToolCompletion provider w1 response q1 a (n @ [responseMessage]) (the fns) = (r, w')"
              using assms(1) rt Inr pair response m Some by (simp add: complete_def Let_def)
            from handleToolCompletion_shape[OF this] assms(2) h1
            obtain extra S where "w' = w1\<lparr>heap := (heap w1)(a := heap w1 a @ extra), Storage := S\<rparr>"
              "S = None \<longleftrightarrow> Storage w1 = None"
              "\<forall>e. r = Inl e \<longrightarrow> S = Storage w1 \<or> (\<exists>st u ms st'. saveChatHistory st u ms = (Inl e, st'))"
              by auto
            then show ?thesis by (rule conclude)
          next
            case False
            obtain r3 w3 where p: "persist w1 (user q1) (n @ [responseMessage]) = (r3, w3)"
              by (cases "persist w1 (user q1) (n @ [responseMessage])")
            obtain S where S: "w3 = w1\<lparr>Storage := S\<rparr>" "S = None \<longleftrightarrow> Storage w1 = None"
                "\<forall>e. r3 = Inl e \<longrightarrow> S = Storage w1 \<or>
                   (\<exists>st st'. saveChatHistory st (user q1) (n @ [responseMessage]) = (Inl e, st'))"
              using persist_cases[OF p] by auto
            have res: "w' = w3 \<and> (\<forall>e. r = Inl e \<longrightarrow> r3 = Inl e)"
              using assms(1) rt Inr pair response m Some False p
              by (cases r3) (auto simp: complete_def Let_def)
            have "w' = w1\<lparr>heap := (heap w1)(a := heap w1 a @ []), Storage := S\<rparr>"
              using res S(1) by simp
            moreover have "\<forall>e. r = Inl e \<longrightarrow> S = Storage w1 \<or> (\<exists>st u ms st'. saveChatHistory st u ms = (Inl e, st'))"
              using res S(3) by metis
            ultimately show ?thesis using S(2) by (intro conclude)
          qed
        qed
      qed
    qed
  qed
qed



lemma instruction_content:
  "content (handleSystemInstructionMessage d c) \<noteq> Plain [] \<longleftrightarrow> truthy c \<or> truthy d"
  by (auto simp: handleSystemInstructionMessage_def system_message_def truthy_def)

lemma assemble_fetch_fails:
  assumes "fetched w options = Inl e"
  shows "\<exists>S. assemble w options =
            (Inl e, w\<lparr>heap := (heap w)(next_free w := []), next_free := Suc (next_free w), Storage := S\<rparr>)
          \<and> (\<forall>key. (case S of None \<Rightarrow> [] | Some st \<Rightarrow> user_log st key) = history_log w key)"
proof (cases "Storage w")
  case None
  then show ?thesis using assms by (simp add: fetched_def)
next
  case (Some st)
  define uid where "uid = (case user (merge_params (completionParams w) (custom_params options)) of
                    None \<Rightarrow> ''default'' | Some u \<Rightarrow> if u = [] then ''default'' else u)"
  obtain r st' where get: "getStoredMessages st uid (Some (turn_history_options w options)) = (r, st')"
    by (cases "getStoredMessages st uid (Some (turn_history_options w options))")
  have r: "r = Inl e" using assms Some get by (simp add: fetched_def uid_def)
  have "assemble w options =
          (Inl e, w\<lparr>heap := (heap w)(next_free w := []), next_free := Suc (next_free w), Storage := Some st'\<rparr>)"
    unfolding assemble_def getContextMessages_def Let_def uid_def[symmetric]
    using Some get r by (simp add: new_array_def)
  moreover have "\<forall>key. user_log st' key = history_log w key"
    using getStoredMessages_frame(1)[OF get] Some by (simp add: history_log_def)
  ultimately show ?thesis by auto
qed

lemma assemble_ok:
  assumes "fetched w options = Inr stored" and "defaultHistoryMessages w \<noteq> Some (next_free w)"
    and "a = (case defaultHistoryMessages w of None \<Rightarrow> next_free w | Some t \<Rightarrow> t)"
    and "working = (case defaultHistoryMessages w of None \<Rightarrow> [] | Some t \<Rightarrow> heap w t) @ stored"
    and "sys = handleSystemInstructionMessage (system_instruction w) (call_instruction options)"
  shows "\<exists>S. assemble w options =
            (Inr (a, merge_params (completionParams w) (custom_params options), [user_message (message options)]),
             w\<lparr>heap := (heap w)(next_free w := [],
                                a := (if content sys \<noteq> Plain [] then sys # without_leading_system working else working)
                                     @ [user_message (message options)]),
               next_free := Suc (next_free w), Storage := S\<rparr>)
          \<and> (\<forall>key. (case S of None \<Rightarrow> [] | Some st \<Rightarrow> user_log st key) = history_log w key)
          \<and> (S = None \<longleftrightarrow> Storage w = None)"
proof -
  define uid where "uid = (case user (merge_params (completionParams w) (custom_params options)) of
                    None \<Rightarrow> ''default'' | Some u \<Rightarrow> if u = [] then ''default'' else u)"
  define w0 where "w0 = w\<lparr>heap := (heap w)(next_free w := []), next_free := Suc (next_free w)\<rparr>"
  have base: "heap w0 a = (case defaultHistoryMessages w of None \<Rightarrow> [] | Some t \<Rightarrow> heap w t)"
    using assms(2,3) by (auto simp: w0_def split: option.splits)
  have ctx: "\<exists>S. getContextMessages w (merge_params (completionParams w) (custom_params options))
                 (turn_history_options w options)
               = (Inr a, w0\<lparr>heap := (heap w0)(a := working), Storage := S\<rparr>)
             \<and> (\<forall>key. (case S of None \<Rightarrow> [] | Some st \<Rightarrow> user_log st key) = history_log w key)
             \<and> (S = None \<longleftrightarrow> Storage w = None)"
  proof (cases "Storage w")
    case None
    then have stored: "stored = []" using assms(1) by (simp add: fetched_def)
    have same: "w0\<lparr>heap := (heap w0)(a := working), Storage := None\<rparr> = w0"
      by (rule world.equality) (simp_all add: assms(4) base[symmetric] stored, simp_all add: w0_def None)
    have "getContextMessages w (merge_params (completionParams w) (custom_params options))
                 (turn_history_options w options) = (Inr a, w0)"
      using None by (simp add: getContextMessages_def new_array_def Let_def w0_def assms(3))
    then have "getContextMessages w (merge_params (completionParams w) (custom_params options))
                 (turn_history_options w options)
               = (Inr a, w0\<lparr>heap := (heap w0)(a := working), Storage := None\<rparr>)"
      by (simp only: same)
    then show ?thesis using None by (auto simp: history_log_def)
  next
    case (Some st)
    obtain r st' where get: "getStoredMessages st uid (Some (turn_history_options w options)) = (r, st')"
      by (cases "getStoredMessages st uid (Some (turn_history_options w options))")
    have r: "r = Inr stored" using assms(1) Some get by (simp add: fetched_def uid_def)
    have "getContextMessages w (merge_params (completionParams w) (custom_params options))
                 (turn_history_options w options)
               = (Inr a, w0\<lparr>heap := (heap w0)(a := working), Storage := Some st'\<rparr>)"
      unfolding getContextMessages_def Let_def uid_def[symmetric]
      using Some get r base assms(3,4)
      by (simp add: new_array_def push_def w0_def)
    moreover have "\<forall>key. (case Some st' of None \<Rightarrow> [] | Some st \<Rightarrow> user_log st key) = history_log w key"
      using getStoredMessages_frame(1)[OF get] Some by (simp add: history_log_def)
    moreover have "Some st' = None \<longleftrightarrow> Storage w = None" using Some by simp
    ultimately show ?thesis by - (rule exI, intro conjI; assumption)
  qed
  then obtain S where S: "getContextMessages w (merge_params (completionParams w) (custom_params options))
                 (turn_history_options w options)
               = (Inr a, w0\<lparr>heap := (heap w0)(a := working), Storage := S\<rparr>)"
      "\<forall>key. (case S of None \<Rightarrow> [] | Some st \<Rightarrow> user_log st key) = history_log w key"
      "S = None \<longleftrightarrow> Storage w = None"
    by auto
  have "assemble w options =
            (Inr (a, merge_params (completionParams w) (custom_params options), [user_message (message options)]),
             w\<lparr>heap := (heap w)(next_free w := [],
                                a := (if content sys \<noteq> Plain [] then sys # without_leading_system working else working)
                                     @ [user_message (message options)]),
               next_free := Suc (next_free w), Storage := S\<rparr>)"
    unfolding assemble_def Let_def S(1)
    by (cases working)
       (simp_all add: assms(5)[symmetric] w0_def push_def shift_def unshift_def without_leading_system_def)
  then show ?thesis using S(2,3) by auto
qed


lemma fetched_of_assemble:
  assumes "assemble w options = (Inr (a, q, n), w1)"
  shows "\<exists>stored. fetched w options = Inr stored"
proof (cases "fetched w options")
  case (Inl e)
  then show ?thesis using assemble_fetch_fails[OF Inl] assms by auto
next
  case (Inr stored)
  then show ?thesis by blast
qed

lemma without_leading_system_keeps:
  "m \<in> set ms \<Longrightarrow> role m \<noteq> System \<Longrightarrow> m \<in> set (without_leading_system ms)"
  by (cases ms) (auto simp: without_leading_system_def)

lemma without_leading_system_length:
  "length ms \<le> Suc (length (without_leading_system ms))"
  by (cases ms) (auto simp: without_leading_system_def)

lemma history_log_Storage:
  "history_log (w\<lparr>Storage := S\<rparr>) key = (case S of None \<Rightarrow> [] | Some st \<Rightarrow> user_log st key)"
  by (simp add: history_log_def)

text \<open>One turn whose history read succeeds, in full.\<close>

lemma createChatCompletion_shape:
  assumes "fetched w options = Inr stored" and "defaultHistoryMessages w \<noteq> Some (next_free w)"
    and "a = (case defaultHistoryMessages w of None \<Rightarrow> next_free w | Some t \<Rightarrow> t)"
    and "working = (case defaultHistoryMessages w of None \<Rightarrow> [] | Some t \<Rightarrow> heap w t) @ stored"
    and "sys = handleSystemInstructionMessage (system_instruction w) (call_instruction options)"
    and "sent = (if content sys \<noteq> Plain [] then sys # without_leading_system working else working)
                @ [user_message (message options)]"
    and "createChatCompletion provider fs w options = (r, w')"
  shows "\<exists>extra S R.
           w' = w\<lparr>heap := (heap w)(next_free w := [], a := sent @ extra), next_free := Suc (next_free w),
                  Storage := S, ToolsRegistry_instance := R\<rparr>
           \<and> (S = None \<longleftrightarrow> Storage w = None)
           \<and> (\<forall>e. r = Inl e \<longrightarrow>
                 (\<exists>cause. e = Err Error (''Chat completion failed: '' @ errorMessage cause)
                    \<and> ((\<forall>key. history_log w' key = history_log w key)
                        \<or> (\<exists>st u ms st'. saveChatHistory st u ms = (Inl cause, st')))))"
proof -
  define q where "q = merge_params (completionParams w) (custom_params options)"
  define n where "n = [user_message (message options)]"
  obtain S1 where asm: "assemble w options =
        (Inr (a, q, n), w\<lparr>heap := (heap w)(next_free w := [], a := sent), next_free := Suc (next_free w),
                          Storage := S1\<rparr>)"
      and log1: "\<forall>key. (case S1 of None \<Rightarrow> [] | Some st \<Rightarrow> user_log st key) = history_log w key"
      and none1: "S1 = None \<longleftrightarrow> Storage w = None"
    using assemble_ok[OF assms(1-5)] unfolding q_def n_def assms(6) by auto
  define w1 where "w1 = w\<lparr>heap := (heap w)(next_free w := [], a := sent), next_free := Suc (next_free w),
                          Storage := S1\<rparr>"
  have h1: "heap w1 a = sent" and s1: "Storage w1 = S1" by (simp_all add: w1_def)
  have ne: "heap w1 a \<noteq> []" by (simp add: h1 assms(6))
  obtain r2 w2 where com: "complete provider fs w1 a q n options = (r2, w2)"
    by (cases "complete provider fs w1 a q n options")
  obtain extra S R where w2: "w2 = w1\<lparr>heap := (heap w1)(a := heap w1 a @ extra), Storage := S, ToolsRegistry_instance := R\<rparr>"
    and none2: "S = None \<longleftrightarrow> Storage w1 = None"
    and fail2: "\<forall>e. r2 = Inl e \<longrightarrow> S = Storage w1 \<or> (\<exists>st u ms st'. saveChatHistory st u ms = (Inl e, st'))"
    using complete_shape[OF com ne] by auto
  have res: "w' = w2 \<and> (\<forall>e. r = Inl e \<longrightarrow> (\<exists>cause. r2 = Inl cause \<and> e = Err Error (''Chat completion failed: '' @ errorMessage cause)))"
    using assms(7) asm com unfolding createChatCompletion_def w1_def[symmetric]
    by (cases r2) auto
  have shape: "w' = w\<lparr>heap := (heap w)(next_free w := [], a := sent @ extra), next_free := Suc (next_free w),
                  Storage := S, ToolsRegistry_instance := R\<rparr>"
    using res w2 by (simp add: w1_def)
  have log: "\<forall>key. history_log w' key = history_log w key" if "S = Storage w1"
    using that log1 s1 by (simp add: shape history_log_def)
  have fail: "\<forall>e. r = Inl e \<longrightarrow>
                 (\<exists>cause. e = Err Error (''Chat completion failed: '' @ errorMessage cause)
                    \<and> ((\<forall>key. history_log w' key = history_log w key)
                        \<or> (\<exists>st u ms st'. saveChatHistory st u ms = (Inl cause, st'))))"
    using res fail2 log by metis
  have none: "S = None \<longleftrightarrow> Storage w = None" using none1 none2 s1 by simp
  from shape none fail show ?thesis by - (rule exI, rule exI, rule exI, intro conjI; assumption)
qed

lemma createChatCompletion_fetch_fails:
  assumes "fetched w options = Inl e"
  shows "\<exists>S. createChatCompletion provider fs w options =
            (Inl e, w\<lparr>heap := (heap w)(next_free w := []), next_free := Suc (next_free w), Storage := S\<rparr>)
          \<and> (\<forall>key. (case S of None \<Rightarrow> [] | Some st \<Rightarrow> user_log st key) = history_log w key)"
  using assemble_fetch_fails[OF assms] by (auto simp: createChatCompletion_def)




text \<open>The equations that evaluate a turn on concrete values.\<close>

lemmas turn_eval =
  createChatCompletion_def assemble_def complete_def resolve_tools_def persist_def getContextMessages_def
  turn_history_options_def merge_history_def merge_params_def spread_def new_array_def push_def
  shift_def unshift_def handleSystemInstructionMessage_def truthy_def system_message_def
  user_message_def first_message_def handleNResponses_def getCompletionsUsage_def getTokensUsage_def
  field_or_zero_def saveChatHistory_def getStoredMessages_def lPush_def lRange_def lrange_of_def
  sendCommand_def stored_list_def userId_text_def history_log_def user_log_def fetched_def
  without_leading_system_def Let_def

lemmas example_defs =
  example_world_def example_options_def example_provider_def example_failing_provider_def
  example_closed_def example_storage_def example_client_def example_templated_def
  example_hi_def example_hello_def example_bye_def









text \<open>
  The template of a constructed agent is the array the caller passed, not a copy of it.
\<close>

lemma construct_keeps_reference:
  "construct key w0 agentOptions = Inr w \<Longrightarrow>
   defaultHistoryMessages w = agent_messages agentOptions \<and> heap w = heap w0 \<and> next_free w = next_free w0"
  by (auto simp: construct_def split: if_splits)

lemma sent_keeps:
  assumes "m \<in> set working" and "role m \<noteq> System"
  shows "m \<in> set ((if c then s # without_leading_system working else working) @ [u])"
  using without_leading_system_keeps[OF assms] assms(1) by auto

lemma sent_longer:
  "length base < length ((if c then s # without_leading_system (base @ stored) else base @ stored) @ [u])"
  using without_leading_system_length[of "base @ stored"] by auto

lemma turn_keeps:
  assumes "defaultHistoryMessages w = Some t" and "t < next_free w"
    and "w' = snd (createChatCompletion provider fs w options)"
  shows "defaultHistoryMessages w' = Some t" and "t < next_free w'"
    and "m \<in> set (heap w t) \<Longrightarrow> role m \<noteq> System \<Longrightarrow> m \<in> set (heap w' t)"
proof -
  have wf: "defaultHistoryMessages w \<noteq> Some (next_free w)" using assms(1,2) by auto
  have "defaultHistoryMessages w' = Some t \<and> t < next_free w'
      \<and> (m \<in> set (heap w t) \<and> role m \<noteq> System \<longrightarrow> m \<in> set (heap w' t))"
  proof (cases "fetched w options")
    case (Inl e)
    obtain S where "createChatCompletion provider fs w options =
            (Inl e, w\<lparr>heap := (heap w)(next_free w := []), next_free := Suc (next_free w), Storage := S\<rparr>)"
      using createChatCompletion_fetch_fails[OF Inl] by blast
    then show ?thesis using assms by auto
  next
    case (Inr stored)
    define sys where "sys = handleSystemInstructionMessage (system_instruction w) (call_instruction options)"
    define sent where "sent = (if content sys \<noteq> Plain [] then sys # without_leading_system (heap w t @ stored)
                               else heap w t @ stored) @ [user_message (message options)]"
    obtain r where turn: "createChatCompletion provider fs w options = (r, w')"
      using assms(3) by (cases "createChatCompletion provider fs w options") simp
    obtain extra S R where w': "w' = w\<lparr>heap := (heap w)(next_free w := [], t := sent @ extra),
          next_free := Suc (next_free w), Storage := S, ToolsRegistry_instance := R\<rparr>"
      using createChatCompletion_shape[OF Inr wf _ _ sys_def _ turn, of t "heap w t @ stored" sent]
        assms(1) unfolding sent_def by auto
    have "m \<in> set sent" if "m \<in> set (heap w t)" "role m \<noteq> System"
      unfolding sent_def by (rule sent_keeps) (use that in simp_all)
    then show ?thesis using assms(1,2) by (auto simp: w')
  qed
  then show "defaultHistoryMessages w' = Some t" and "t < next_free w'"
    and "m \<in> set (heap w t) \<Longrightarrow> role m \<noteq> System \<Longrightarrow> m \<in> set (heap w' t)"
    by simp_all
qed

lemma turns_keep:
  assumes "defaultHistoryMessages w = Some t" and "t < next_free w"
  shows "defaultHistoryMessages (turns provider fs w later) = Some t \<and> t < next_free (turns provider fs w later)
       \<and> (m \<in> set (heap w t) \<and> role m \<noteq> System \<longrightarrow> m \<in> set (heap (turns provider fs w later) t))"
  using assms
proof (induction later arbitrary: w)
  case Nil
  then show ?case by simp
next
  case (Cons options later)
  define w' where "w' = snd (createChatCompletion provider fs w options)"
  note k = turn_keeps[OF Cons.prems w'_def]
  show ?case
    using Cons.IH[OF k(1,2)] k(3) by (auto simp: w'_def)
qed

lemma assemble_resends:
  assumes "defaultHistoryMessages w = Some t" and "t < next_free w"
    and "assemble w options = (Inr (a, q, n), w1)"
    and "m \<in> set (heap w t)" and "role m \<noteq> System"
  shows "a = t \<and> m \<in> set (heap w1 t)"
proof -
  have wf: "defaultHistoryMessages w \<noteq> Some (next_free w)" using assms(1,2) by auto
  obtain stored where f: "fetched w options = Inr stored"
    using fetched_of_assemble[OF assms(3)] by blast
  define sys where "sys = handleSystemInstructionMessage (system_instruction w) (call_instruction options)"
  obtain S where "assemble w options =
            (Inr (t, merge_params (completionParams w) (custom_params options), [user_message (message options)]),
             w\<lparr>heap := (heap w)(next_free w := [],
                                t := (if content sys \<noteq> Plain [] then sys # without_leading_system (heap w t @ stored)
                                      else heap w t @ stored)
                                     @ [user_message (message options)]),
               next_free := Suc (next_free w), Storage := S\<rparr>)"
    using assemble_ok[OF f wf _ _ sys_def, of t "heap w t @ stored"] assms(1) by auto
  then have "a = t" and "heap w1 t = (if content sys \<noteq> Plain [] then sys # without_leading_system (heap w t @ stored)
                                      else heap w t @ stored) @ [user_message (message options)]"
    using assms(3) by auto
  moreover have "m \<in> set ((if content sys \<noteq> Plain [] then sys # without_leading_system (heap w t @ stored)
                                      else heap w t @ stored) @ [user_message (message options)])"
    by (rule sent_keeps) (use assms(4,5) in simp_all)
  ultimately show ?thesis by (auto split: if_splits)
qed

text \<open>
  C10, as the code has it. For an agent constructed with a template (an allocated array
  at address \<open>t\<close>), a turn whose history read succeeds works on the template array
  itself: the sequence it assembles and sends stands in the template array, and so after
  the turn the template is that sequence (the resolved instruction, if any, at the head in
  place of a leading system message, then the old template, the stored messages fetched
  and the new user message), followed by what the tool round pushed. The template has
  grown. The stored messages and the new user message of the turn that are not
  system-role messages stay in the template through all later turns and are in the
  sequence every later turn assembles. The system message of the turn does not: it is
  written at the head, where the next resolved instruction replaces it.
\<close>

theorem template_mutated_in_place:
  assumes "defaultHistoryMessages w = Some t" and "t < next_free w" and "fetched w options = Inr stored"
    and "sent = (if truthy (call_instruction options) \<or> truthy (system_instruction w)
                 then handleSystemInstructionMessage (system_instruction w) (call_instruction options)
                      # without_leading_system (heap w t @ stored)
                 else heap w t @ stored) @ [user_message (message options)]"
    and "w' = snd (createChatCompletion provider fs w options)"
  shows "(\<exists>q n w1. assemble w options = (Inr (t, q, n), w1) \<and> heap w1 t = sent)
       \<and> defaultHistoryMessages w' = Some t
       \<and> (\<exists>extra. heap w' t = sent @ extra)
       \<and> length (heap w t) < length (heap w' t)
       \<and> (\<forall>m. m \<in> set (stored @ [user_message (message options)]) \<and> role m \<noteq> System \<longrightarrow> m \<in> set (heap w' t))
       \<and> (\<forall>later m. m \<in> set (heap w' t) \<and> role m \<noteq> System \<longrightarrow> m \<in> set (heap (turns provider fs w' later) t))
       \<and> (\<forall>later next a q n w2 m.
             assemble (turns provider fs w' later) next = (Inr (a, q, n), w2)
             \<and> m \<in> set (heap w' t) \<and> role m \<noteq> System
             \<longrightarrow> a = t \<and> m \<in> set (heap w2 t))"
proof -
  have wf: "defaultHistoryMessages w \<noteq> Some (next_free w)" using assms(1,2) by auto
  define sys where "sys = handleSystemInstructionMessage (system_instruction w) (call_instruction options)"
  have sent: "sent = (if content sys \<noteq> Plain [] then sys # without_leading_system (heap w t @ stored)
                      else heap w t @ stored) @ [user_message (message options)]"
    unfolding assms(4) sys_def by (simp add: instruction_content)
  have a: "t = (case defaultHistoryMessages w of None \<Rightarrow> next_free w | Some t \<Rightarrow> t)"
    and b: "heap w t @ stored = (case defaultHistoryMessages w of None \<Rightarrow> [] | Some t \<Rightarrow> heap w t) @ stored"
    using assms(1) by simp_all
  obtain S1 where asm: "assemble w options =
            (Inr (t, merge_params (completionParams w) (custom_params options), [user_message (message options)]),
             w\<lparr>heap := (heap w)(next_free w := [], t := sent), next_free := Suc (next_free w), Storage := S1\<rparr>)"
    using assemble_ok[OF assms(3) wf a b sys_def] unfolding sent by auto
  have p1: "\<exists>q n w1. assemble w options = (Inr (t, q, n), w1) \<and> heap w1 t = sent"
    unfolding asm by simp
  obtain r where turn: "createChatCompletion provider fs w options = (r, w')"
    using assms(5) by (cases "createChatCompletion provider fs w options") simp
  obtain extra S R where w': "w' = w\<lparr>heap := (heap w)(next_free w := [], t := sent @ extra),
          next_free := Suc (next_free w), Storage := S, ToolsRegistry_instance := R\<rparr>"
    using createChatCompletion_shape[OF assms(3) wf a b sys_def sent turn] by auto
  have p2: "defaultHistoryMessages w' = Some t" and nf: "t < next_free w'"
    using assms(1,2) by (simp_all add: w')
  have h': "heap w' t = sent @ extra" by (simp add: w')
  have p3: "\<exists>extra. heap w' t = sent @ extra" using h' by blast
  have p4: "length (heap w t) < length (heap w' t)"
    unfolding h' sent using sent_longer[of "heap w t" "content sys \<noteq> Plain []" sys stored] by simp
  have p5: "m \<in> set (heap w' t)" if "m \<in> set (stored @ [user_message (message options)]) \<and> role m \<noteq> System" for m
  proof (cases "m \<in> set stored")
    case True
    have "m \<in> set ((if content sys \<noteq> Plain [] then sys # without_leading_system (heap w t @ stored)
                         else heap w t @ stored) @ [user_message (message options)])"
      by (rule sent_keeps) (use that True in simp_all)
    then show ?thesis unfolding h' sent by (auto split: if_splits)
  next
    case False
    then have "m = user_message (message options)" using that by simp
    then show ?thesis unfolding h' sent by (auto split: if_splits)
  qed
  have p6: "m \<in> set (heap (turns provider fs w' later) t)" if "m \<in> set (heap w' t) \<and> role m \<noteq> System" for later m
    using turns_keep[OF p2 nf, where m=m and later=later and provider=provider and fs=fs] that by simp
  have p7: "a = t \<and> m \<in> set (heap w2 t)"
    if "assemble (turns provider fs w' later) next = (Inr (a, q, n), w2) \<and> m \<in> set (heap w' t) \<and> role m \<noteq> System"
    for later "next" a q n w2 m
  proof -
    have k: "defaultHistoryMessages (turns provider fs w' later) = Some t" "t < next_free (turns provider fs w' later)"
      "m \<in> set (heap (turns provider fs w' later) t)"
      using turns_keep[OF p2 nf, where m=m and later=later and provider=provider and fs=fs] that by simp_all
    show ?thesis using assemble_resends[OF k(1,2) _ k(3)] that by blast
  qed
  show ?thesis using p1 p2 p3 p4 p5 p6 p7 by blast
qed


theorem template_mutated_in_place_witness:
  "defaultHistoryMessages (example_templated\<lparr>Storage := Some example_storage\<rparr>) = Some 0
   \<and> fetched (example_templated\<lparr>Storage := Some example_storage\<rparr>) example_options
       = Inr [example_hi, example_hello, example_bye]
   \<and> (\<exists>extra. heap (snd (createChatCompletion example_provider example_source
                             (example_templated\<lparr>Storage := Some example_storage\<rparr>) example_options)) 0
         = [system_message ''D'', example_hi, example_hi, example_hello, example_bye, user_message ''2+2?''] @ extra)
   \<and> length (heap (example_templated\<lparr>Storage := Some example_storage\<rparr>) 0)
       < length (heap (snd (createChatCompletion example_provider example_source
                             (example_templated\<lparr>Storage := Some example_storage\<rparr>) example_options)) 0)"
proof -
  define w where "w = example_templated\<lparr>Storage := Some example_storage\<rparr>"
  have d: "defaultHistoryMessages w = Some 0" and nf: "0 < next_free w"
    by (simp_all add: w_def example_templated_def)
  have f: "fetched w example_options = Inr [example_hi, example_hello, example_bye]"
    by (simp add: w_def turn_eval example_defs)
  have t: "role (system_message ''T'') = System" by (simp add: system_message_def)
  have s: "(if truthy (call_instruction example_options) \<or> truthy (system_instruction w)
            then handleSystemInstructionMessage (system_instruction w) (call_instruction example_options)
                 # without_leading_system (heap w 0 @ [example_hi, example_hello, example_bye])
            else heap w 0 @ [example_hi, example_hello, example_bye]) @ [user_message (message example_options)]
       = [system_message ''D'', example_hi, example_hi, example_hello, example_bye, user_message ''2+2?'']"
    using t by (simp add: w_def truthy_def handleSystemInstructionMessage_def example_templated_def
        example_options_def example_world_def without_leading_system_def)
  show ?thesis
    using template_mutated_in_place[OF d nf f s[symmetric] refl, of example_provider example_source] d f
    unfolding w_def by blast
qed

text \<open>
  C10 as stated fails for the system message: after a turn with the per-call instruction
  \<open>X\<close> the template holds the system message \<open>X\<close>, and the next turn, which resolves the
  default \<open>D\<close>, assembles a sequence without it. And a turn whose history read fails
  leaves the template as it was.
\<close>

theorem system_message_not_resent_counterexample:
  "system_message ''X''
     \<in> set (heap (snd (createChatCompletion example_provider example_source example_templated
                         (example_options\<lparr>call_instruction := Some ''X''\<rparr>))) 0)
   \<and> map_sum id fst (fst (assemble (snd (createChatCompletion example_provider example_source example_templated
                               (example_options\<lparr>call_instruction := Some ''X''\<rparr>))) example_options))
       = Inr 0
   \<and> heap (snd (assemble (snd (createChatCompletion example_provider example_source example_templated
                               (example_options\<lparr>call_instruction := Some ''X''\<rparr>))) example_options)) 0
       = [system_message ''D'', example_hi, user_message ''2+2?'', user_message ''2+2?'']
   \<and> system_message ''X''
     \<notin> set (heap (snd (assemble (snd (createChatCompletion example_provider example_source example_templated
                               (example_options\<lparr>call_instruction := Some ''X''\<rparr>))) example_options)) 0)
   \<and> heap (snd (createChatCompletion example_provider example_source
                  (example_templated\<lparr>Storage := Some example_closed\<rparr>) example_options)) 0
       = heap (example_templated\<lparr>Storage := Some example_closed\<rparr>) 0"
  by (simp add: turn_eval example_defs)

end
